theory Spec2Isabelle
  imports Complex_Main
begin

section \<open>Paths, artifacts and the training session\<close>

text \<open>
  The development follows \<^verbatim>\<open>train_wavernn.py\<close>. A path is the list of its components.
  The \<^verbatim>\<open>Paths\<close> object is built outside this file, so it is a parameter: a record of
  the locations the program reads from it. \<^verbatim>\<open>d / n\<close> appends the file name \<open>n\<close> to the
  directory \<open>d\<close>, \<^verbatim>\<open>p.parent\<close> drops the last component.
\<close>

type_synonym path = "string list"

record paths =
  voc_latest_weights :: path
  voc_latest_optim :: path
  voc_checkpoints :: path
  voc_output :: path
  voc_log :: path
  data :: path

definition joinpath :: "path \<Rightarrow> string \<Rightarrow> path" where
  "joinpath d n = d @ [n]"

definition parent :: "path \<Rightarrow> path" where
  "parent p = butlast p"

definition path_str :: "path \<Rightarrow> string" where
  "path_str p = concat (map (\<lambda>c. CHR ''/'' # c) p)"

text \<open>The dictionaries \<^verbatim>\<open>{'w': ..., 'o': ...}\<close> of the source.\<close>

record path_dict =
  weights_path :: path
  optim_path :: path

datatype device = CPU | CUDA

datatype dtype = Int64 | Float32

text \<open>
  Tensors are kept by their metadata: the program only moves, reshapes and casts them,
  the numbers inside belong to the numerical libraries.
\<close>

record tensor =
  shape :: "nat list"
  dtype :: dtype
  dev :: device

datatype loss_fn = CrossEntropy | DiscretizedMixLogistic

text \<open>
  The model object: its step counter, its output mode, the device of its parameters,
  and the parameter values (with their gradients), of an opaque type \<open>'w\<close>.
  The optimizer: the learning rate of its parameter groups and its opaque state \<open>'o\<close>.
\<close>

record 'w wavernn =
  step :: int
  mode :: string
  device :: device
  params :: 'w

record 'o adam =
  lr :: real
  moments :: 'o

datatype ('w, 'o) artifact = WeightsFile int 'w | OptimFile "'o adam"

text \<open>Every call to a collaborator and every printed line is recorded, in program order.\<close>

datatype event =
    Print string
  | Mkdir path
  | SaveModel path
  | SaveOptim path
  | LoadModel path
  | LoadOptim path
  | Forward tensor tensor
  | ParallelForward tensor tensor
  | LossCall loss_fn tensor tensor
  | ZeroGrad
  | Backward
  | ClipGradNorm
  | OptimizerStep
  | GenTestset path
  | Stream int int int int int
  | ModelLog path
  | SimpleTable int int

record ('w, 'o) session =
  model :: "'w wavernn"
  optimizer :: "'o adam"
  files :: "path \<rightharpoonup> ('w, 'o) artifact"
  dirs :: "path set"
  trace :: "event list"

datatype error =
    FileNotFoundError string
  | ValueError string
  | RuntimeError string
  | ZeroDivisionError
  | IndexError
  | AssertionError

text \<open>
  A call either returns or raises; in both cases the session it leaves behind is kept,
  since what was written or printed before an exception stays written.
\<close>

datatype ('w, 'o) outcome =
    Returned "('w, 'o) session"
  | Raised error "('w, 'o) session"

definition final :: "('w, 'o) outcome \<Rightarrow> ('w, 'o) session" where
  "final r = (case r of Returned s \<Rightarrow> s | Raised e s \<Rightarrow> s)"

definition raised :: "('w, 'o) outcome \<Rightarrow> error option" where
  "raised r = (case r of Returned s \<Rightarrow> None | Raised e s \<Rightarrow> Some e)"

definition emit :: "event \<Rightarrow> ('w, 'o) session \<Rightarrow> ('w, 'o) session" where
  "emit ev s = s\<lparr>trace := trace s @ [ev]\<rparr>"

text \<open>\<^verbatim>\<open>if not is_silent: print(msg)\<close>\<close>

definition announce :: "bool \<Rightarrow> string \<Rightarrow> ('w, 'o) session \<Rightarrow> ('w, 'o) session" where
  "announce is_silent msg s = (if is_silent then s else emit (Print msg) s)"

section \<open>The artifact store\<close>

text \<open>
  The disk is a map from paths to the artifacts stored at them. A path exists when a file
  is stored at it; the directories that \<^verbatim>\<open>mkdir\<close> creates are kept apart. Reading and
  writing succeed whenever the program gets to them: failures of the disk itself are not
  part of the model.
\<close>

definition exists :: "(path \<rightharpoonup> 'a) \<Rightarrow> path \<Rightarrow> bool" where
  "exists fs p = (fs p \<noteq> None)"

text \<open>\<^verbatim>\<open>sum(p.exists() for p in path_dict.values())\<close>\<close>

definition num_exist :: "(path \<rightharpoonup> 'a) \<Rightarrow> path_dict \<Rightarrow> nat" where
  "num_exist fs pd =
     (if exists fs (weights_path pd) then 1 else 0) + (if exists fs (optim_path pd) then 1 else 0)"

text \<open>\<^verbatim>\<open>p.parent.mkdir(parents=True, exist_ok=True)\<close>: the parent and all its ancestors.\<close>

definition mkdir_parent :: "path \<Rightarrow> ('w, 'o) session \<Rightarrow> ('w, 'o) session" where
  "mkdir_parent p s =
     emit (Mkdir (parent p))
       (s\<lparr>dirs := dirs s \<union> set (map (\<lambda>n. take n (parent p)) [1 ..< Suc (length (parent p))])\<rparr>)"

text \<open>
  Modelled from the spec: \<^verbatim>\<open>WaveRNN.save\<close> is defined in \<^verbatim>\<open>models/fatchord_version.py\<close>,
  which is not among the sources. The step counter is serialized as part of the weights
  artifact, next to the parameter values.
\<close>

definition model_save :: "path \<Rightarrow> ('w, 'o) session \<Rightarrow> ('w, 'o) session" where
  "model_save p s =
     emit (SaveModel p)
       (s\<lparr>files := (files s)(p \<mapsto> WeightsFile (step (model s)) (params (model s)))\<rparr>)"

text \<open>
  Modelled from the spec: \<^verbatim>\<open>WaveRNN.load\<close>, from the same absent file, replaces the step
  counter and the parameter values by those of the weights artifact and leaves the mode and
  the device alone. A file that is not a weights artifact makes the load raise.
\<close>

definition model_load :: "path \<Rightarrow> ('w, 'o) session \<Rightarrow> ('w, 'o) outcome" where
  "model_load p s =
     (case files s p of
        None \<Rightarrow> Raised (FileNotFoundError (path_str p)) s
      | Some (WeightsFile n ws) \<Rightarrow>
          Returned (emit (LoadModel p) (s\<lparr>model := (model s)\<lparr>step := n, params := ws\<rparr>\<rparr>))
      | Some (OptimFile st) \<Rightarrow> Raised (RuntimeError ''Error(s) in loading state_dict'') s)"

text \<open>\<^verbatim>\<open>torch.save(optimizer.state_dict(), p)\<close>\<close>

definition optim_save :: "path \<Rightarrow> ('w, 'o) session \<Rightarrow> ('w, 'o) session" where
  "optim_save p s =
     emit (SaveOptim p) (s\<lparr>files := (files s)(p \<mapsto> OptimFile (optimizer s))\<rparr>)"

text \<open>\<^verbatim>\<open>optimizer.load_state_dict(torch.load(p))\<close>\<close>

definition optim_load :: "path \<Rightarrow> ('w, 'o) session \<Rightarrow> ('w, 'o) outcome" where
  "optim_load p s =
     (case files s p of
        None \<Rightarrow> Raised (FileNotFoundError (path_str p)) s
      | Some (OptimFile st) \<Rightarrow> Returned (emit (LoadOptim p) (s\<lparr>optimizer := st\<rparr>))
      | Some (WeightsFile n ws) \<Rightarrow> Raised (RuntimeError ''Error(s) in loading state_dict'') s)"

section \<open>Saving and restoring checkpoints\<close>

definition latest_paths :: "paths \<Rightarrow> path_dict" where
  "latest_paths ps =
     \<lparr>weights_path = voc_latest_weights ps, optim_path = voc_latest_optim ps\<rparr>"

definition named_paths :: "paths \<Rightarrow> string \<Rightarrow> path_dict" where
  "named_paths ps name =
     \<lparr>weights_path = joinpath (voc_checkpoints ps) (name @ ''_weights.pyt''),
      optim_path = joinpath (voc_checkpoints ps) (name @ ''_optim.pyt'')\<rparr>"

text \<open>\<^verbatim>\<open>if name:\<close> holds for a name that is neither \<^verbatim>\<open>None\<close> nor empty.\<close>

definition name_given :: "string option \<Rightarrow> bool" where
  "name_given name = (case name of None \<Rightarrow> False | Some n \<Rightarrow> n \<noteq> [])"

definition broken_msg :: "string \<Rightarrow> string" where
  "broken_msg s =
     ''We expected either both or no files in the '' @ s @
     '' checkpoint to exist, but instead we got exactly one!''"

definition not_found_msg :: "string \<Rightarrow> string" where
  "not_found_msg s = ''The '' @ s @ '' checkpoint could not be found!''"

text \<open>The lines the two functions print.\<close>

definition creating_msg :: "string \<Rightarrow> string" where
  "creating_msg s = ''Creating '' @ s @ '' checkpoint...''"

definition saving_existing_msg :: "string \<Rightarrow> string" where
  "saving_existing_msg s = ''Saving to existing '' @ s @ '' checkpoint...''"

definition saving_weights_msg :: "string \<Rightarrow> path \<Rightarrow> string" where
  "saving_weights_msg s p = ''Saving '' @ s @ '' weights: '' @ path_str p"

definition saving_optim_msg :: "string \<Rightarrow> path \<Rightarrow> string" where
  "saving_optim_msg s p = ''Saving '' @ s @ '' optimizer state: '' @ path_str p"

definition restoring_msg :: "string \<Rightarrow> string" where
  "restoring_msg s = ''Restoring from '' @ s @ '' checkpoint...''"

definition loading_weights_msg :: "string \<Rightarrow> path \<Rightarrow> string" where
  "loading_weights_msg s p = ''Loading '' @ s @ '' weights: '' @ path_str p"

definition loading_optim_msg :: "string \<Rightarrow> path \<Rightarrow> string" where
  "loading_optim_msg s p = ''Loading '' @ s @ '' optimizer state: '' @ path_str p"

definition helper :: "bool \<Rightarrow> path_dict \<Rightarrow> bool \<Rightarrow> ('w, 'o) session \<Rightarrow> ('w, 'o) outcome" where
  "helper is_silent pd is_named st =
     (let s = (if is_named then ''named'' else ''latest'');
          n = num_exist (files st) pd
      in if n \<noteq> 0 \<and> n \<noteq> 2 then Raised (FileNotFoundError (broken_msg s)) st
         else
           let st1 = (if n = 0
                      then mkdir_parent (optim_path pd) (mkdir_parent (weights_path pd)
                             (announce is_silent (creating_msg s) st))
                      else announce is_silent (saving_existing_msg s) st);
               st2 = announce is_silent (saving_weights_msg s (weights_path pd)) st1;
               st3 = model_save (weights_path pd) st2;
               st4 = announce is_silent (saving_optim_msg s (optim_path pd)) st3
           in Returned (optim_save (optim_path pd) st4))"

definition save_checkpoint ::
  "paths \<Rightarrow> string option \<Rightarrow> bool \<Rightarrow> ('w, 'o) session \<Rightarrow> ('w, 'o) outcome" where
  "save_checkpoint ps name is_silent st =
     (case helper is_silent (latest_paths ps) False st of
        Raised e st' \<Rightarrow> Raised e st'
      | Returned st' \<Rightarrow>
          if name_given name then helper is_silent (named_paths ps (the name)) True st'
          else Returned st')"

text \<open>
  Lines 225 to 236 of the source: the pair of paths of the checkpoint that is asked for,
  and the word used for it in the messages.
\<close>

definition checkpoint_paths :: "paths \<Rightarrow> string option \<Rightarrow> path_dict" where
  "checkpoint_paths ps name =
     (if name_given name then named_paths ps (the name) else latest_paths ps)"

definition checkpoint_kind :: "string option \<Rightarrow> string" where
  "checkpoint_kind name = (if name_given name then ''named'' else ''latest'')"

definition restore_checkpoint ::
  "paths \<Rightarrow> string option \<Rightarrow> bool \<Rightarrow> ('w, 'o) session \<Rightarrow> ('w, 'o) outcome" where
  "restore_checkpoint ps name create_if_missing st =
     (let pd = checkpoint_paths ps name;
          s = checkpoint_kind name
      in if num_exist (files st) pd = 2
         then
           (case model_load (weights_path pd)
                   (emit (Print (loading_weights_msg s (weights_path pd)))
                      (emit (Print (restoring_msg s)) st)) of
              Raised e st' \<Rightarrow> Raised e st'
            | Returned st' \<Rightarrow>
                optim_load (optim_path pd)
                  (emit (Print (loading_optim_msg s (optim_path pd))) st'))
         else if create_if_missing then save_checkpoint ps name False st
         else Raised (FileNotFoundError (not_found_msg s)) st)"

section \<open>Observations on a run\<close>

text \<open>The paths written by the save events of a trace, in the order of the writes.\<close>

fun written :: "event list \<Rightarrow> path list" where
  "written [] = []"
| "written (SaveModel p # evs) = p # written evs"
| "written (SaveOptim p # evs) = p # written evs"
| "written (ev # evs) = written evs"

text \<open>The events a call added to the trace of the session it started from.\<close>

definition new_events :: "('w, 'o) session \<Rightarrow> ('w, 'o) outcome \<Rightarrow> event list" where
  "new_events st r = drop (length (trace st)) (trace (final r))"

text \<open>No file of one pair is a file of the other.\<close>

definition apart :: "path_dict \<Rightarrow> path_dict \<Rightarrow> bool" where
  "apart a b = ({weights_path a, optim_path a} \<inter> {weights_path b, optim_path b} = {})"

section \<open>Example sessions\<close>

definition example_paths :: paths where
  "example_paths =
     \<lparr>voc_latest_weights = [''checkpoints'', ''latest_weights.pyt''],
      voc_latest_optim = [''checkpoints'', ''latest_optim.pyt''],
      voc_checkpoints = [''checkpoints''],
      voc_output = [''model_outputs''],
      voc_log = [''checkpoints'', ''log.txt''],
      data = [''data'']\<rparr>"

text \<open>A freshly constructed model and optimizer over an empty disk.\<close>

definition fresh_session :: "(nat, nat) session" where
  "fresh_session =
     \<lparr>model = \<lparr>step = 0, mode = ''RAW'', device = CPU, params = 0\<rparr>,
      optimizer = \<lparr>lr = 0, moments = 0\<rparr>,
      files = Map.empty, dirs = {}, trace = []\<rparr>"

text \<open>The latest weights file is there, the latest optimizer state is not.\<close>

definition half_latest_session :: "(nat, nat) session" where
  "half_latest_session =
     fresh_session\<lparr>files := [[''checkpoints'', ''latest_weights.pyt''] \<mapsto> WeightsFile 7 1]\<rparr>"

text \<open>Only the weights file of the checkpoint named \<^verbatim>\<open>wave_step1K\<close> is there.\<close>

definition half_named_session :: "(nat, nat) session" where
  "half_named_session =
     fresh_session\<lparr>files := [[''checkpoints'', ''wave_step1K_weights.pyt''] \<mapsto> WeightsFile 7 1]\<rparr>"

text \<open>Both latest files are there.\<close>

definition saved_session :: "(nat, nat) session" where
  "saved_session =
     fresh_session\<lparr>files := [[''checkpoints'', ''latest_weights.pyt''] \<mapsto> WeightsFile 7 1,
                             [''checkpoints'', ''latest_optim.pyt''] \<mapsto> OptimFile \<lparr>lr = 0, moments = 3\<rparr>]\<rparr>"


section \<open>Tensors as the loop handles them\<close>

text \<open>\<^verbatim>\<open>t.to(device)\<close>, \<^verbatim>\<open>t.float()\<close> and \<^verbatim>\<open>t.unsqueeze(-1)\<close>\<close>

definition to_device :: "device \<Rightarrow> tensor \<Rightarrow> tensor" where
  "to_device d t = t\<lparr>dev := d\<rparr>"

definition to_float :: "tensor \<Rightarrow> tensor" where
  "to_float t = t\<lparr>dtype := Float32\<rparr>"

definition unsqueeze_last :: "tensor \<Rightarrow> tensor" where
  "unsqueeze_last t = t\<lparr>shape := shape t @ [1]\<rparr>"

text \<open>\<^verbatim>\<open>t.transpose(i, j)\<close> swaps two dimensions and raises when one is out of range.\<close>

definition tensor_transpose :: "nat \<Rightarrow> nat \<Rightarrow> tensor \<Rightarrow> error + tensor" where
  "tensor_transpose i j t =
     (if i < length (shape t) \<and> j < length (shape t)
      then Inr (t\<lparr>shape := (shape t)[i := shape t ! j, j := shape t ! i]\<rparr>)
      else Inl IndexError)"

text \<open>Lines 113 to 119: what the loss function is called with.\<close>

definition loss_inputs :: "string \<Rightarrow> tensor \<Rightarrow> tensor \<Rightarrow> error + tensor \<times> tensor" where
  "loss_inputs md y_hat y =
     (if md = ''RAW''
      then (case tensor_transpose 1 2 y_hat of
              Inl e \<Rightarrow> Inl e
            | Inr t \<Rightarrow> Inr (unsqueeze_last t, unsqueeze_last y))
      else if md = ''MOL'' then Inr (y_hat, unsqueeze_last (to_float y))
      else Inr (y_hat, unsqueeze_last y))"

section \<open>The training loop\<close>

text \<open>
  The hyperparameters the control flow reads. The others are only handed on to the
  model's constructor and to \<^verbatim>\<open>gen_testset\<close>.
\<close>

record hparams =
  voc_clip_grad_norm :: "real option"
  voc_checkpoint_every :: int
  voc_total_steps :: int
  voc_batch_size :: int
  voc_lr :: real
  voc_mode :: string
  voc_upsample_factors :: "int list"
  hop_length :: int

text \<open>
  The numerical collaborators are parameters: what \<^verbatim>\<open>torch.cuda\<close> reports, the forward
  pass (by the metadata of what it returns), the loss with \<^verbatim>\<open>zero_grad\<close> and
  \<^verbatim>\<open>backward\<close>, \<^verbatim>\<open>clip_grad_norm_\<close> (the parameters with clipped gradients, and whether
  \<^verbatim>\<open>np.isnan\<close> holds of the norm it returns), \<^verbatim>\<open>optimizer.step\<close>, and the values a new
  model and a new optimizer start from.
\<close>

record ('w, 'o) torch =
  cuda_is_available :: bool
  cuda_device_count :: nat
  forward :: "'w \<Rightarrow> tensor \<Rightarrow> tensor \<Rightarrow> tensor"
  backward :: "loss_fn \<Rightarrow> tensor \<Rightarrow> tensor \<Rightarrow> 'w \<Rightarrow> 'w"
  clip_grad_norm :: "real \<Rightarrow> 'w \<Rightarrow> 'w \<times> bool"
  optimizer_step :: "'o adam \<Rightarrow> 'w \<Rightarrow> 'w \<times> 'o adam"
  init_params :: 'w
  init_moments :: 'o

text \<open>
  A data loader is the list of the batches \<^verbatim>\<open>(x, y, m)\<close> it yields when it is iterated;
  \<^verbatim>\<open>len(train_set)\<close> is the length of the list.
\<close>

type_synonym dataloader = "(tensor \<times> tensor \<times> tensor) list"

text \<open>Line 97 of the source.\<close>

definition epochs :: "int \<Rightarrow> int \<Rightarrow> int \<Rightarrow> int" where
  "epochs total_steps current_step total_iters =
     (total_steps - current_step) div total_iters + 1"

text \<open>
  The epoch count in the words of the specification: the ceiling of the remaining steps
  over the iterations per epoch.
\<close>

definition spec_epochs :: "int \<Rightarrow> int \<Rightarrow> int \<Rightarrow> int" where
  "spec_epochs total_steps current_step iterations_per_epoch =
     \<lceil>real_of_int (total_steps - current_step) / real_of_int iterations_per_epoch\<rceil>"

text \<open>
  Modelled from the spec: the step counter lives in the \<^verbatim>\<open>WaveRNN\<close> class
  (\<^verbatim>\<open>models/fatchord_version.py\<close>), which is not among the sources; the loop only reads
  it through \<^verbatim>\<open>get_step()\<close>. It is owned by the model and is incremented exactly once
  per completed optimization step, after the optimizer update.
\<close>

definition advance_step :: "('w, 'o) session \<Rightarrow> ('w, 'o) session" where
  "advance_step st = st\<lparr>model := (model st)\<lparr>step := step (model st) + 1\<rparr>\<rparr>"

text \<open>
  Modelled from the spec: the constructor of \<^verbatim>\<open>WaveRNN\<close>, from the same absent file. The
  step counter is created at model construction, at zero.
\<close>

definition new_wavernn :: "string \<Rightarrow> device \<Rightarrow> 'w \<Rightarrow> 'w wavernn" where
  "new_wavernn md d ws = \<lparr>step = 0, mode = md, device = d, params = ws\<rparr>"

text \<open>
  Lines 124 to 130: gradients are zeroed and recomputed; when a clipping threshold is
  configured they are clipped and a not-a-number norm is reported on the console; the
  optimizer update follows in every case.
\<close>

definition clip_and_step ::
  "('w, 'o) torch \<Rightarrow> hparams \<Rightarrow> ('w, 'o) session \<Rightarrow> ('w, 'o) session" where
  "clip_and_step env hp st =
     (let st1 = (case voc_clip_grad_norm hp of
                   None \<Rightarrow> st
                 | Some c \<Rightarrow>
                     let r = clip_grad_norm env c (params (model st));
                         st' = emit ClipGradNorm (st\<lparr>model := (model st)\<lparr>params := fst r\<rparr>\<rparr>)
                     in if snd r then emit (Print ''grad_norm was NaN!'') st' else st');
          u = optimizer_step env (optimizer st1) (params (model st1))
      in emit OptimizerStep (st1\<lparr>model := (model st1)\<lparr>params := fst u\<rparr>, optimizer := snd u\<rparr>))"

definition digit_char :: "nat \<Rightarrow> char" where
  "digit_char n = char_of (48 + n)"

fun show_nat :: "nat \<Rightarrow> string" where
  "show_nat n = (if n < 10 then [digit_char n] else show_nat (n div 10) @ [digit_char (n mod 10)])"

declare show_nat.simps [simp del]

definition show_int :: "int \<Rightarrow> string" where
  "show_int k = (if k < 0 then CHR ''-'' # show_nat (nat (- k)) else show_nat (nat k))"

text \<open>
  Lines 137 to 148: on a step that the checkpoint interval divides, the test set is
  generated and a named checkpoint is saved; then the progress line is streamed. The
  running loss and the speed on that line are floating-point display values and are left
  out of the event.
\<close>

definition checkpoint_and_report ::
  "hparams \<Rightarrow> paths \<Rightarrow> int \<Rightarrow> int \<Rightarrow> nat \<Rightarrow> int \<Rightarrow> ('w, 'o) session \<Rightarrow> ('w, 'o) outcome" where
  "checkpoint_and_report hp ps e n_epochs i total_iters st =
     (let stp = step (model st);
          k = stp div 1000
      in if voc_checkpoint_every hp = 0 then Raised ZeroDivisionError st
         else
           (case (if stp mod voc_checkpoint_every hp = 0
                  then save_checkpoint ps (Some (''wave_step'' @ show_int k @ ''K'')) True
                         (emit (GenTestset (voc_output ps)) st)
                  else Returned st) of
              Raised err st' \<Rightarrow> Raised err st'
            | Returned st' \<Rightarrow> Returned (emit (Stream e n_epochs (int i) total_iters k) st')))"

text \<open>
  Lines 108 to 111: with more than one GPU the forward pass goes through
  \<^verbatim>\<open>data_parallel_workaround\<close>.
\<close>

definition forward_event :: "('w, 'o) torch \<Rightarrow> device \<Rightarrow> tensor \<Rightarrow> tensor \<Rightarrow> event" where
  "forward_event env d x m =
     (if d = CUDA \<and> 1 < cuda_device_count env then ParallelForward x m else Forward x m)"

text \<open>One pass through the body of the inner loop, lines 105 to 148.\<close>

definition train_batch ::
  "('w, 'o) torch \<Rightarrow> hparams \<Rightarrow> paths \<Rightarrow> loss_fn \<Rightarrow> int \<Rightarrow> int \<Rightarrow> int \<Rightarrow>
   nat \<times> tensor \<times> tensor \<times> tensor \<Rightarrow> ('w, 'o) session \<Rightarrow> ('w, 'o) outcome" where
  "train_batch env hp ps loss_func e n_epochs total_iters b st =
     (case b of (i, x0, y0, m0) \<Rightarrow>
        let d = device (model st);
            x = to_device d x0; m = to_device d m0; y = to_device d y0;
            y_hat = forward env (params (model st)) x m;
            st1 = emit (forward_event env d x m) st
        in case loss_inputs (mode (model st)) y_hat y of
             Inl err \<Rightarrow> Raised err st1
           | Inr (y_hat', y') \<Rightarrow>
               let st2 = emit (LossCall loss_func y_hat' y') st1;
                   st3 = emit Backward (emit ZeroGrad
                           (st2\<lparr>model := (model st2)
                               \<lparr>params := backward env loss_func y_hat' y' (params (model st2))\<rparr>\<rparr>))
               in checkpoint_and_report hp ps e n_epochs i total_iters
                    (advance_step (clip_and_step env hp st3)))"

text \<open>A loop over a list that stops at the first exception.\<close>

fun for_each ::
  "('a \<Rightarrow> ('w, 'o) session \<Rightarrow> ('w, 'o) outcome) \<Rightarrow> 'a list \<Rightarrow> ('w, 'o) session \<Rightarrow>
   ('w, 'o) outcome" where
  "for_each f [] st = Returned st"
| "for_each f (b # bs) st =
     (case f b st of Raised err st' \<Rightarrow> Raised err st' | Returned st' \<Rightarrow> for_each f bs st')"

text \<open>
  One epoch, lines 101 to 154. After the batches the latest checkpoint is saved, silently,
  and the last progress line is logged. An epoch is only entered with a loader that is not
  empty, so that line exists.
\<close>

definition train_epoch ::
  "('w, 'o) torch \<Rightarrow> hparams \<Rightarrow> paths \<Rightarrow> loss_fn \<Rightarrow> dataloader \<Rightarrow> int \<Rightarrow> int \<Rightarrow>
   ('w, 'o) session \<Rightarrow> ('w, 'o) outcome" where
  "train_epoch env hp ps loss_func train_set n_epochs e st =
     (case for_each (train_batch env hp ps loss_func e n_epochs (int (length train_set)))
             (List.enumerate 1 train_set) st of
        Raised err st' \<Rightarrow> Raised err st'
      | Returned st' \<Rightarrow>
          (case save_checkpoint ps None True st' of
             Raised err st'' \<Rightarrow> Raised err st''
           | Returned st'' \<Rightarrow> Returned (emit (Print '' '') (emit (ModelLog (voc_log ps)) st''))))"

definition voc_train_loop ::
  "('w, 'o) torch \<Rightarrow> hparams \<Rightarrow> paths \<Rightarrow> loss_fn \<Rightarrow> dataloader \<Rightarrow> real \<Rightarrow> int \<Rightarrow>
   ('w, 'o) session \<Rightarrow> ('w, 'o) outcome" where
  "voc_train_loop env hp ps loss_func train_set learning_rate total_steps st =
     (let st0 = st\<lparr>optimizer := (optimizer st)\<lparr>lr := learning_rate\<rparr>\<rparr>;
          total_iters = int (length train_set)
      in if total_iters = 0 then Raised ZeroDivisionError st0
         else
           let n_epochs = epochs total_steps (step (model st0)) total_iters
           in for_each (train_epoch env hp ps loss_func train_set n_epochs) [1 .. n_epochs] st0)"

section \<open>The entry point\<close>

record args =
  arg_lr :: "real option"
  arg_batch_size :: "int option"
  force_train :: bool
  gta :: bool
  force_cpu :: bool

text \<open>Lines 30 to 40: a command-line value overrides the hyperparameter file.\<close>

definition batch_size_of :: "hparams \<Rightarrow> args \<Rightarrow> int" where
  "batch_size_of hp a = (case arg_batch_size a of None \<Rightarrow> voc_batch_size hp | Some b \<Rightarrow> b)"

definition lr_of :: "hparams \<Rightarrow> args \<Rightarrow> real" where
  "lr_of hp a = (case arg_lr a of None \<Rightarrow> voc_lr hp | Some r \<Rightarrow> r)"

definition batch_size_msg :: string where
  "batch_size_msg = ''`batch_size` must be evenly divisible by n_gpus!''"

text \<open>Lines 42 to 47: the device, and the check of the batch size against the GPUs.\<close>

definition select_device :: "bool \<Rightarrow> bool \<Rightarrow> nat \<Rightarrow> int \<Rightarrow> error + device" where
  "select_device no_gpu available device_count batch_size =
     (if \<not> no_gpu \<and> available
      then (if device_count = 0 then Inl ZeroDivisionError
            else if batch_size mod int device_count \<noteq> 0 then Inl (ValueError batch_size_msg)
            else Inr CUDA)
      else Inr CPU)"

text \<open>
  \<^verbatim>\<open>main\<close>, from the parsed arguments, the configured hyperparameters, the paths, the
  training set and the files on disk. An exception of the device check comes before the
  model exists: it is the left alternative, and nothing has run. From then on there is a
  session. The optimizer is put into the session together with the model; constructing it
  prints and writes nothing.
\<close>

definition main ::
  "('w, 'o) torch \<Rightarrow> hparams \<Rightarrow> paths \<Rightarrow> args \<Rightarrow> dataloader \<Rightarrow>
   (path \<rightharpoonup> ('w, 'o) artifact) \<Rightarrow> error + ('w, 'o) outcome" where
  "main env hp ps a train_set disk =
     (let learning_rate = lr_of hp a;
          batch_size = batch_size_of hp a
      in case select_device (force_cpu a) (cuda_is_available env) (cuda_device_count env)
                batch_size of
           Inl err \<Rightarrow> Inl err
         | Inr d \<Rightarrow>
             Inr (let st = \<lparr>model = new_wavernn (voc_mode hp) d (init_params env),
                             optimizer = \<lparr>lr = 1 / 1000, moments = init_moments env\<rparr>,
                             files = disk, dirs = {},
                             trace = [Print (''Using device: '' @ (if d = CUDA then ''cuda'' else ''cpu'')),
                                      Print (CHR 0x0A # ''Initialising Model...'' @ [CHR 0x0A])]\<rparr>
                  in if voc_upsample_factors hp = [] then Raised IndexError st
                     else if prod_list (voc_upsample_factors hp) \<noteq> hop_length hp
                     then Raised AssertionError st
                     else
                       (case restore_checkpoint ps None True st of
                          Raised err st' \<Rightarrow> Raised err st'
                        | Returned st' \<Rightarrow>
                            let total_steps = (if force_train a then 10000000
                                               else voc_total_steps hp);
                                st1 = emit (SimpleTable
                                        ((total_steps - step (model st')) div 1000) batch_size) st';
                                loss_func = (if mode (model st1) = ''RAW'' then CrossEntropy
                                             else DiscretizedMixLogistic)
                            in (case voc_train_loop env hp ps loss_func train_set learning_rate
                                       total_steps st1 of
                                  Raised err st2 \<Rightarrow> Raised err st2
                                | Returned st2 \<Rightarrow>
                                    Returned (emit (Print ''To continue training increase voc_total_steps in hparams.py or use --force_train'')
                                               (emit (Print ''Training Complete.'') st2))))))"

section \<open>An example run\<close>

definition example_torch :: "(nat, nat) torch" where
  "example_torch =
     \<lparr>cuda_is_available = True, cuda_device_count = 2,
      forward = (\<lambda>ws x m. \<lparr>shape = [32, 5, 4], dtype = Float32, dev = dev x\<rparr>),
      backward = (\<lambda>lf y_hat y ws. ws),
      clip_grad_norm = (\<lambda>c ws. (ws, True)),
      optimizer_step = (\<lambda>st ws. (Suc ws, st\<lparr>moments := Suc (moments st)\<rparr>)),
      init_params = 0, init_moments = 0\<rparr>"

definition example_hparams :: hparams where
  "example_hparams =
     \<lparr>voc_clip_grad_norm = Some 4, voc_checkpoint_every = 500, voc_total_steps = 1000,
      voc_batch_size = 32, voc_lr = 1 / 10000, voc_mode = ''RAW'',
      voc_upsample_factors = [5, 5, 11], hop_length = 275\<rparr>"

definition example_batch :: "tensor \<times> tensor \<times> tensor" where
  "example_batch =
     (\<lparr>shape = [32, 5], dtype = Float32, dev = CPU\<rparr>,
      \<lparr>shape = [32, 5], dtype = Int64, dev = CPU\<rparr>,
      \<lparr>shape = [32, 80, 9], dtype = Float32, dev = CPU\<rparr>)"

definition example_args :: args where
  "example_args =
     \<lparr>arg_lr = None, arg_batch_size = Some 33, force_train = False, gta = False,
      force_cpu = False\<rparr>"

definition tiny_loader :: dataloader where
  "tiny_loader = [example_batch]"

text \<open>The epochs a run completed: each one ends with a call of \<^verbatim>\<open>model.log\<close>.\<close>

fun epochs_logged :: "event list \<Rightarrow> nat" where
  "epochs_logged [] = 0"
| "epochs_logged (ModelLog p # evs) = Suc (epochs_logged evs)"
| "epochs_logged (ev # evs) = epochs_logged evs"
section \<open>Basic facts about outcomes, traces and the helper\<close>

lemma final_simps [simp]:
  "final (Returned s) = s" "final (Raised e s) = s"
  by (simp_all add: final_def)

lemma raised_simps [simp]:
  "raised (Returned s) = None" "raised (Raised e s) = Some e"
  by (simp_all add: raised_def)

lemma num_exist_cases: "num_exist fs pd = 0 \<or> num_exist fs pd = 1 \<or> num_exist fs pd = 2"
  by (simp add: num_exist_def)

lemma written_append [simp]: "written (xs @ ys) = written xs @ written ys"
  by (induction xs rule: written.induct) simp_all

lemma new_events_append [simp]:
  "trace (final r) = trace st @ evs \<Longrightarrow> new_events st r = evs"
  by (simp add: new_events_def)

text \<open>
  With exactly one of its two files present the helper raises and leaves the session as it
  found it; otherwise it returns, both files hold the in-memory state, and the only writes
  are the weights file followed by the optimizer file.
\<close>

lemma helper_broken:
  "num_exist (files st) pd = Suc 0 \<Longrightarrow>
   helper sil pd nm st =
     Raised (FileNotFoundError (broken_msg (if nm then ''named'' else ''latest''))) st"
  by (simp add: helper_def Let_def)

lemma helper_ok:
  assumes "num_exist (files st) pd \<noteq> Suc 0"
  shows "\<exists>st' evs. helper sil pd nm st = Returned st' \<and>
           files st' = (files st)(weights_path pd \<mapsto> WeightsFile (step (model st)) (params (model st)),
                                  optim_path pd \<mapsto> OptimFile (optimizer st)) \<and>
           model st' = model st \<and> optimizer st' = optimizer st \<and>
           trace st' = trace st @ evs \<and> written evs = [weights_path pd, optim_path pd]"
proof -
  from assms num_exist_cases [of "files st" pd]
  have "num_exist (files st) pd = 0 \<or> num_exist (files st) pd = 2" by auto
  then show ?thesis
    by (auto simp add: helper_def Let_def announce_def emit_def mkdir_parent_def
        model_save_def optim_save_def)
qed

lemma helper_frame:
  "\<exists>evs. trace (final (helper sil pd nm st)) = trace st @ evs \<and>
         model (final (helper sil pd nm st)) = model st \<and>
         optimizer (final (helper sil pd nm st)) = optimizer st"
proof (cases "num_exist (files st) pd = Suc 0")
  case True
  then show ?thesis by (simp add: helper_broken)
next
  case False
  from helper_ok [OF False, of sil nm] show ?thesis by auto
qed

lemma helper_files_other:
  assumes "p \<noteq> weights_path pd" and "p \<noteq> optim_path pd"
  shows "files (final (helper sil pd nm st)) p = files st p"
proof (cases "num_exist (files st) pd = Suc 0")
  case True
  then show ?thesis by (simp add: helper_broken)
next
  case False
  from helper_ok [OF False, of sil nm] assms show ?thesis by auto
qed

lemma num_exist_after_helper:
  "num_exist ((fs)(weights_path pd \<mapsto> a, optim_path pd \<mapsto> b)) pd = 2"
  by (simp add: num_exist_def exists_def)

lemma num_exist_frame:
  "apart a b \<Longrightarrow> num_exist ((fs)(weights_path a \<mapsto> x, optim_path a \<mapsto> y)) b = num_exist fs b"
  by (auto simp add: num_exist_def exists_def apart_def)

lemma checkpoint_paths_latest [simp]:
  "\<not> name_given name \<Longrightarrow> checkpoint_paths ps name = latest_paths ps"
  by (simp add: checkpoint_paths_def)

lemma checkpoint_paths_named [simp]:
  "name_given name \<Longrightarrow> checkpoint_paths ps name = named_paths ps (the name)"
  by (simp add: checkpoint_paths_def)

lemma latest_paths_sel [simp]:
  "weights_path (latest_paths ps) = voc_latest_weights ps"
  "optim_path (latest_paths ps) = voc_latest_optim ps"
  by (simp_all add: latest_paths_def)

text \<open>
  What saving does when the pair that is asked for is half present: the raise comes from
  the latest pair when that one is half present, and from the named pair otherwise, after
  the latest pair has been written.
\<close>

lemma save_half_present:
  fixes st :: "('w, 'o) session"
  assumes one: "num_exist (files st) (checkpoint_paths ps name) = 1"
      and ap: "name_given name \<longrightarrow> apart (latest_paths ps) (named_paths ps (the name))"
  shows "\<exists>st'. save_checkpoint ps name sil st =
             Raised (FileNotFoundError (broken_msg
               (if num_exist (files st) (latest_paths ps) = 1 then ''latest'' else ''named''))) st' \<and>
           (num_exist (files st) (latest_paths ps) = 1 \<longrightarrow> st' = st) \<and>
           files st' (weights_path (checkpoint_paths ps name)) =
             files st (weights_path (checkpoint_paths ps name)) \<and>
           files st' (optim_path (checkpoint_paths ps name)) =
             files st (optim_path (checkpoint_paths ps name)) \<and>
           model st' = model st \<and> optimizer st' = optimizer st"
proof (cases "num_exist (files st) (latest_paths ps) = 1")
  case True
  then show ?thesis
    by (simp add: save_checkpoint_def helper_broken)
next
  case False
  with one have given: "name_given name"
    by (cases "name_given name") simp_all
  with one have named: "num_exist (files st) (named_paths ps (the name)) = Suc 0"
    by simp
  from given ap have ap': "apart (latest_paths ps) (named_paths ps (the name))"
    by simp
  from False have "num_exist (files st) (latest_paths ps) \<noteq> Suc 0" by simp
  from helper_ok [OF this, of sil False]
  obtain s1 evs where h: "helper sil (latest_paths ps) False st = Returned s1"
    and f1: "files s1 = (files st)(weights_path (latest_paths ps) \<mapsto>
                 WeightsFile (step (model st)) (params (model st)),
               optim_path (latest_paths ps) \<mapsto> OptimFile (optimizer st))"
    and m1: "model s1 = model st" and o1: "optimizer s1 = optimizer st"
    by blast
  from f1 ap' named have "num_exist (files s1) (named_paths ps (the name)) = Suc 0"
    by (simp only: num_exist_frame)
  then have "helper sil (named_paths ps (the name)) True s1 =
      Raised (FileNotFoundError (broken_msg ''named'')) s1"
    by (simp add: helper_broken)
  with h given have "save_checkpoint ps name sil st =
      Raised (FileNotFoundError (broken_msg ''named'')) s1"
    by (simp add: save_checkpoint_def)
  moreover from f1 ap' given
  have "files s1 (weights_path (checkpoint_paths ps name)) =
          files st (weights_path (checkpoint_paths ps name))"
       "files s1 (optim_path (checkpoint_paths ps name)) =
          files st (optim_path (checkpoint_paths ps name))"
    by (auto simp add: apart_def)
  ultimately show ?thesis using False m1 o1 by simp
qed

text \<open>
  A second run of the helper on the session the first run returned.
\<close>

lemma helper_latest_second:
  assumes "num_exist (files st) pd \<noteq> Suc 0"
  shows "helper sil pd nm st = Returned s1 \<Longrightarrow>
         \<exists>s2. helper sil pd nm s1 = Returned s2 \<and> files s2 = files s1 \<and> model s2 = model s1"
proof -
  assume h: "helper sil pd nm st = Returned s1"
  from helper_ok [OF assms, of sil nm] h
  have f1: "files s1 = (files st)(weights_path pd \<mapsto> WeightsFile (step (model st)) (params (model st)),
                 optim_path pd \<mapsto> OptimFile (optimizer st))"
    and m1: "model s1 = model st" and o1: "optimizer s1 = optimizer st"
    by auto
  from f1 have "num_exist (files s1) pd = 2"
    by (simp only: num_exist_after_helper)
  then have "num_exist (files s1) pd \<noteq> Suc 0" by simp
  from helper_ok [OF this, of sil nm]
  obtain s2 where h2: "helper sil pd nm s1 = Returned s2"
    and f2: "files s2 = (files s1)(weights_path pd \<mapsto> WeightsFile (step (model s1)) (params (model s1)),
                 optim_path pd \<mapsto> OptimFile (optimizer s1))"
    and m2: "model s2 = model s1"
    by blast
  from f2 f1 m1 o1 have "files s2 = files s1" by simp
  with h2 m2 show ?thesis by simp
qed

text \<open>
  A save that finds no file of the checkpoint that is asked for creates it: it returns,
  both files exist and hold the in-memory state, and the latest pair is written first.
\<close>

lemma save_bootstrap:
  fixes st :: "('w, 'o) session"
  assumes zero: "num_exist (files st) (checkpoint_paths ps name) = 0"
      and ok: "name_given name \<longrightarrow>
                 num_exist (files st) (latest_paths ps) \<noteq> 1 \<and>
                 apart (latest_paths ps) (named_paths ps (the name))"
  shows "\<exists>st'. save_checkpoint ps name sil st = Returned st' \<and>
           num_exist (files st') (checkpoint_paths ps name) = 2 \<and>
           files st' (optim_path (checkpoint_paths ps name)) = Some (OptimFile (optimizer st)) \<and>
           (weights_path (checkpoint_paths ps name) \<noteq> optim_path (checkpoint_paths ps name) \<longrightarrow>
              files st' (weights_path (checkpoint_paths ps name)) =
                Some (WeightsFile (step (model st)) (params (model st)))) \<and>
           model st' = model st \<and> optimizer st' = optimizer st \<and>
           written (new_events st (Returned st')) =
             (if name_given name
              then [voc_latest_weights ps, voc_latest_optim ps,
                    weights_path (named_paths ps (the name)),
                    optim_path (named_paths ps (the name))]
              else [voc_latest_weights ps, voc_latest_optim ps])"
proof (cases "name_given name")
  case False
  with zero have "num_exist (files st) (latest_paths ps) \<noteq> Suc 0" by simp
  from helper_ok [OF this, of sil False]
  obtain s1 evs where h1: "helper sil (latest_paths ps) False st = Returned s1"
    and f1: "files s1 = (files st)(weights_path (latest_paths ps) \<mapsto>
                 WeightsFile (step (model st)) (params (model st)),
               optim_path (latest_paths ps) \<mapsto> OptimFile (optimizer st))"
    and m1: "model s1 = model st" and o1: "optimizer s1 = optimizer st"
    and t1: "trace s1 = trace st @ evs"
    and w1: "written evs = [weights_path (latest_paths ps), optim_path (latest_paths ps)]"
    by blast
  from h1 False have s: "save_checkpoint ps name sil st = Returned s1"
    by (simp add: save_checkpoint_def)
  from f1 have n: "num_exist (files s1) (latest_paths ps) = 2"
    by (simp only: num_exist_after_helper)
  from f1 have c: "files s1 (voc_latest_optim ps) = Some (OptimFile (optimizer st))"
    "voc_latest_weights ps \<noteq> voc_latest_optim ps \<longrightarrow>
       files s1 (voc_latest_weights ps) = Some (WeightsFile (step (model st)) (params (model st)))"
    by simp_all
  from t1 w1 have "written (new_events st (Returned s1)) =
      [voc_latest_weights ps, voc_latest_optim ps]"
    by simp
  with s n c m1 o1 False show ?thesis by simp
next
  case True
  let ?np = "named_paths ps (the name)"
  from True ok have ne: "num_exist (files st) (latest_paths ps) \<noteq> Suc 0"
    and ap: "apart (latest_paths ps) ?np"
    by simp_all
  from True zero have nz: "num_exist (files st) ?np = 0" by simp
  from helper_ok [OF ne, of sil False]
  obtain s1 evs where h1: "helper sil (latest_paths ps) False st = Returned s1"
    and f1: "files s1 = (files st)(weights_path (latest_paths ps) \<mapsto>
                 WeightsFile (step (model st)) (params (model st)),
               optim_path (latest_paths ps) \<mapsto> OptimFile (optimizer st))"
    and m1: "model s1 = model st" and o1: "optimizer s1 = optimizer st"
    and t1: "trace s1 = trace st @ evs"
    and w1: "written evs = [weights_path (latest_paths ps), optim_path (latest_paths ps)]"
    by blast
  from f1 ap nz have "num_exist (files s1) ?np = 0"
    by (simp only: num_exist_frame)
  then have "num_exist (files s1) ?np \<noteq> Suc 0" by simp
  from helper_ok [OF this, of sil True]
  obtain s2 evs2 where h2: "helper sil ?np True s1 = Returned s2"
    and f2: "files s2 = (files s1)(weights_path ?np \<mapsto>
                 WeightsFile (step (model s1)) (params (model s1)),
               optim_path ?np \<mapsto> OptimFile (optimizer s1))"
    and m2: "model s2 = model s1" and o2: "optimizer s2 = optimizer s1"
    and t2: "trace s2 = trace s1 @ evs2"
    and w2: "written evs2 = [weights_path ?np, optim_path ?np]"
    by blast
  from h1 h2 True have s: "save_checkpoint ps name sil st = Returned s2"
    by (simp add: save_checkpoint_def)
  from f2 have n: "num_exist (files s2) ?np = 2"
    by (simp only: num_exist_after_helper)
  from f2 m1 o1 have c: "files s2 (optim_path ?np) = Some (OptimFile (optimizer st))"
    "weights_path ?np \<noteq> optim_path ?np \<longrightarrow>
       files s2 (weights_path ?np) = Some (WeightsFile (step (model st)) (params (model st)))"
    by simp_all
  from t1 t2 have "trace s2 = trace st @ (evs @ evs2)" by simp
  then have "new_events st (Returned s2) = evs @ evs2" by simp
  with w1 w2 have wr: "written (new_events st (Returned s2)) =
      [voc_latest_weights ps, voc_latest_optim ps, weights_path ?np, optim_path ?np]"
    by simp
  from s n c m1 m2 o1 o2 wr True show ?thesis by simp
qed

section \<open>Facts about the example sessions\<close>

lemma example_latest:
  "latest_paths example_paths =
     \<lparr>weights_path = [''checkpoints'', ''latest_weights.pyt''],
      optim_path = [''checkpoints'', ''latest_optim.pyt'']\<rparr>"
  by (simp add: latest_paths_def example_paths_def)

lemma example_named:
  "named_paths example_paths ''wave_step1K'' =
     \<lparr>weights_path = [''checkpoints'', ''wave_step1K_weights.pyt''],
      optim_path = [''checkpoints'', ''wave_step1K_optim.pyt'']\<rparr>"
  by (simp add: named_paths_def example_paths_def joinpath_def)

lemma example_sel [simp]:
  "voc_latest_weights example_paths = [''checkpoints'', ''latest_weights.pyt'']"
  "voc_latest_optim example_paths = [''checkpoints'', ''latest_optim.pyt'']"
  "weights_path (named_paths example_paths ''wave_step1K'') =
     [''checkpoints'', ''wave_step1K_weights.pyt'']"
  "optim_path (named_paths example_paths ''wave_step1K'') =
     [''checkpoints'', ''wave_step1K_optim.pyt'']"
  by (simp_all add: example_paths_def named_paths_def joinpath_def)

lemma example_apart [simp]:
  "apart (latest_paths example_paths) (named_paths example_paths ''wave_step1K'')"
  by (simp add: apart_def example_latest example_named)

lemma example_counts [simp]:
  "num_exist (files fresh_session) (latest_paths example_paths) = 0"
  "num_exist (files half_latest_session) (latest_paths example_paths) = 1"
  "num_exist (files saved_session) (latest_paths example_paths) = 2"
  "num_exist (files half_named_session) (latest_paths example_paths) = 0"
  "num_exist (files fresh_session) (named_paths example_paths ''wave_step1K'') = 0"
  "num_exist (files half_named_session) (named_paths example_paths ''wave_step1K'') = 1"
  "num_exist (files half_latest_session) (named_paths example_paths ''wave_step1K'') = 0"
  by (simp_all add: num_exist_def exists_def fresh_session_def half_latest_session_def
      half_named_session_def saved_session_def example_latest example_named)

lemma example_names [simp]:
  "\<not> name_given None" "name_given (Some ''wave_step1K'')"
  "checkpoint_kind None = ''latest''" "checkpoint_kind (Some ''wave_step1K'') = ''named''"
  by (simp_all add: name_given_def checkpoint_kind_def)

lemma half_latest_facts [simp]:
  "files half_latest_session [''checkpoints'', ''latest_optim.pyt''] = None"
  "trace half_latest_session = []"
  by (simp_all add: half_latest_session_def fresh_session_def)

section \<open>Restoring a checkpoint\<close>

text \<open>
  Claim C1 says that, for every checkpoint, a restore that finds neither artifact and has
  \<^verbatim>\<open>create_if_missing\<close> set bootstraps the checkpoint through \<^verbatim>\<open>save_checkpoint\<close>. For a
  named checkpoint none of whose files exists, with only the latest weights on disk, the
  save it delegates to raises on the half-present latest pair and the named files are
  still absent.
\<close>

theorem restore_bootstrap_counterexample:
  "num_exist (files half_latest_session)
     (checkpoint_paths example_paths (Some ''wave_step1K'')) = 0 \<and>
   restore_checkpoint example_paths (Some ''wave_step1K'') True half_latest_session =
     Raised (FileNotFoundError (broken_msg ''latest'')) half_latest_session \<and>
   files half_latest_session [''checkpoints'', ''wave_step1K_weights.pyt''] = None \<and>
   files half_latest_session [''checkpoints'', ''wave_step1K_optim.pyt''] = None"
proof -
  have g: "name_given (Some ''wave_step1K'')"
    by (simp add: name_given_def)
  have z: "num_exist (files half_latest_session)
     (checkpoint_paths example_paths (Some ''wave_step1K'')) = 0"
    by (simp add: g)
  have r: "restore_checkpoint example_paths (Some ''wave_step1K'') True half_latest_session =
     Raised (FileNotFoundError (broken_msg ''latest'')) half_latest_session"
    using z by (simp add: restore_checkpoint_def Let_def save_checkpoint_def helper_broken)
  have n: "files half_latest_session [''checkpoints'', ''wave_step1K_weights.pyt''] = None"
    "files half_latest_session [''checkpoints'', ''wave_step1K_optim.pyt''] = None"
    by (simp_all add: half_latest_session_def fresh_session_def)
  from z r n show ?thesis by simp
qed

text \<open>
  Claim C1 as amended. \<^verbatim>\<open>restore_checkpoint\<close> splits on the number of artifacts of the
  checkpoint that exist. With both present it prints, loads the weights and only then the
  optimizer state, whatever \<^verbatim>\<open>create_if_missing\<close> is; when the two files hold a weights
  artifact and an optimizer artifact it returns with the model and the optimizer replaced
  by them, and the trace grows by exactly the three printed lines and the two loads,
  weights first. With none present and \<^verbatim>\<open>create_if_missing\<close> set it is
  \<^verbatim>\<open>save_checkpoint\<close> on the same name, not silent; that save creates the checkpoint (it
  returns, both artifacts exist and hold the in-memory model and optimizer, which are left
  as they were, and the latest pair is written first) for the latest checkpoint always,
  and for a named one when the latest pair is not half present and shares no file with
  the named pair. With none present and \<^verbatim>\<open>create_if_missing\<close> unset it raises the error
  whose message says that the checkpoint could not be found, and changes nothing.
\<close>

theorem restore_checkpoint_three_way:
  fixes st :: "('w, 'o) session"
  shows "(num_exist (files st) (checkpoint_paths ps name) = 2 \<longrightarrow>
            restore_checkpoint ps name cim st =
              (case model_load (weights_path (checkpoint_paths ps name))
                      (emit (Print (loading_weights_msg (checkpoint_kind name)
                                      (weights_path (checkpoint_paths ps name))))
                         (emit (Print (restoring_msg (checkpoint_kind name))) st)) of
                 Raised e st' \<Rightarrow> Raised e st'
               | Returned st' \<Rightarrow>
                   optim_load (optim_path (checkpoint_paths ps name))
                     (emit (Print (loading_optim_msg (checkpoint_kind name)
                                     (optim_path (checkpoint_paths ps name)))) st')))
       \<and> (files st (weights_path (checkpoint_paths ps name)) = Some (WeightsFile n ws) \<and>
          files st (optim_path (checkpoint_paths ps name)) = Some (OptimFile os) \<longrightarrow>
            num_exist (files st) (checkpoint_paths ps name) = 2 \<and>
            restore_checkpoint ps name cim st =
              Returned (st\<lparr>model := (model st)\<lparr>step := n, params := ws\<rparr>, optimizer := os,
                 trace := trace st @
                   [Print (restoring_msg (checkpoint_kind name)),
                    Print (loading_weights_msg (checkpoint_kind name) (weights_path (checkpoint_paths ps name))),
                    LoadModel (weights_path (checkpoint_paths ps name)),
                    Print (loading_optim_msg (checkpoint_kind name) (optim_path (checkpoint_paths ps name))),
                    LoadOptim (optim_path (checkpoint_paths ps name))]\<rparr>))
       \<and> (num_exist (files st) (checkpoint_paths ps name) = 0 \<and> cim \<longrightarrow>
            restore_checkpoint ps name cim st = save_checkpoint ps name False st \<and>
            ((name_given name \<longrightarrow>
                num_exist (files st) (latest_paths ps) \<noteq> 1 \<and>
                apart (latest_paths ps) (named_paths ps (the name))) \<longrightarrow>
             (\<exists>st'. restore_checkpoint ps name cim st = Returned st' \<and>
                num_exist (files st') (checkpoint_paths ps name) = 2 \<and>
                files st' (optim_path (checkpoint_paths ps name)) =
                  Some (OptimFile (optimizer st)) \<and>
                (weights_path (checkpoint_paths ps name) \<noteq> optim_path (checkpoint_paths ps name) \<longrightarrow>
                   files st' (weights_path (checkpoint_paths ps name)) =
                     Some (WeightsFile (step (model st)) (params (model st)))) \<and>
                model st' = model st \<and> optimizer st' = optimizer st \<and>
                written (new_events st (Returned st')) =
                  (if name_given name
                   then [voc_latest_weights ps, voc_latest_optim ps,
                         weights_path (named_paths ps (the name)),
                         optim_path (named_paths ps (the name))]
                   else [voc_latest_weights ps, voc_latest_optim ps]))))
       \<and> (num_exist (files st) (checkpoint_paths ps name) = 0 \<and> \<not> cim \<longrightarrow>
            restore_checkpoint ps name cim st =
              Raised (FileNotFoundError (not_found_msg (checkpoint_kind name))) st)"
proof -
  have both: "num_exist (files st) (checkpoint_paths ps name) = 2 \<longrightarrow>
            restore_checkpoint ps name cim st =
              (case model_load (weights_path (checkpoint_paths ps name))
                      (emit (Print (loading_weights_msg (checkpoint_kind name)
                                      (weights_path (checkpoint_paths ps name))))
                         (emit (Print (restoring_msg (checkpoint_kind name))) st)) of
                 Raised e st' \<Rightarrow> Raised e st'
               | Returned st' \<Rightarrow>
                   optim_load (optim_path (checkpoint_paths ps name))
                     (emit (Print (loading_optim_msg (checkpoint_kind name)
                                     (optim_path (checkpoint_paths ps name)))) st'))"
    by (simp add: restore_checkpoint_def Let_def)
  have loaded: "files st (weights_path (checkpoint_paths ps name)) = Some (WeightsFile n ws) \<and>
          files st (optim_path (checkpoint_paths ps name)) = Some (OptimFile os) \<longrightarrow>
            num_exist (files st) (checkpoint_paths ps name) = 2 \<and>
            restore_checkpoint ps name cim st =
              Returned (st\<lparr>model := (model st)\<lparr>step := n, params := ws\<rparr>, optimizer := os,
                 trace := trace st @
                   [Print (restoring_msg (checkpoint_kind name)),
                    Print (loading_weights_msg (checkpoint_kind name) (weights_path (checkpoint_paths ps name))),
                    LoadModel (weights_path (checkpoint_paths ps name)),
                    Print (loading_optim_msg (checkpoint_kind name) (optim_path (checkpoint_paths ps name))),
                    LoadOptim (optim_path (checkpoint_paths ps name))]\<rparr>)"
    by (simp add: restore_checkpoint_def num_exist_def exists_def model_load_def optim_load_def
        emit_def Let_def)
  have missing: "num_exist (files st) (checkpoint_paths ps name) = 0 \<and> \<not> cim \<longrightarrow>
            restore_checkpoint ps name cim st =
              Raised (FileNotFoundError (not_found_msg (checkpoint_kind name))) st"
    by (simp add: restore_checkpoint_def Let_def)
  have created: "restore_checkpoint ps name cim st = save_checkpoint ps name False st \<and>
            ((name_given name \<longrightarrow>
                num_exist (files st) (latest_paths ps) \<noteq> 1 \<and>
                apart (latest_paths ps) (named_paths ps (the name))) \<longrightarrow>
             (\<exists>st'. restore_checkpoint ps name cim st = Returned st' \<and>
                num_exist (files st') (checkpoint_paths ps name) = 2 \<and>
                files st' (optim_path (checkpoint_paths ps name)) =
                  Some (OptimFile (optimizer st)) \<and>
                (weights_path (checkpoint_paths ps name) \<noteq> optim_path (checkpoint_paths ps name) \<longrightarrow>
                   files st' (weights_path (checkpoint_paths ps name)) =
                     Some (WeightsFile (step (model st)) (params (model st)))) \<and>
                model st' = model st \<and> optimizer st' = optimizer st \<and>
                written (new_events st (Returned st')) =
                  (if name_given name
                   then [voc_latest_weights ps, voc_latest_optim ps,
                         weights_path (named_paths ps (the name)),
                         optim_path (named_paths ps (the name))]
                   else [voc_latest_weights ps, voc_latest_optim ps])))"
    if zero: "num_exist (files st) (checkpoint_paths ps name) = 0" and cim: cim
  proof -
    from zero cim have d: "restore_checkpoint ps name cim st = save_checkpoint ps name False st"
      by (simp add: restore_checkpoint_def Let_def)
    have "(\<exists>st'. restore_checkpoint ps name cim st = Returned st' \<and>
                num_exist (files st') (checkpoint_paths ps name) = 2 \<and>
                files st' (optim_path (checkpoint_paths ps name)) =
                  Some (OptimFile (optimizer st)) \<and>
                (weights_path (checkpoint_paths ps name) \<noteq> optim_path (checkpoint_paths ps name) \<longrightarrow>
                   files st' (weights_path (checkpoint_paths ps name)) =
                     Some (WeightsFile (step (model st)) (params (model st)))) \<and>
                model st' = model st \<and> optimizer st' = optimizer st \<and>
                written (new_events st (Returned st')) =
                  (if name_given name
                   then [voc_latest_weights ps, voc_latest_optim ps,
                         weights_path (named_paths ps (the name)),
                         optim_path (named_paths ps (the name))]
                   else [voc_latest_weights ps, voc_latest_optim ps]))"
      if ok: "(name_given name \<longrightarrow>
                num_exist (files st) (latest_paths ps) \<noteq> 1 \<and>
                apart (latest_paths ps) (named_paths ps (the name)))"
      using save_bootstrap [OF zero ok, of False] d by simp
    with d show ?thesis by blast
  qed
  from both loaded missing created show ?thesis by blast
qed

text \<open>
  The cases of C1 as amended at concrete sessions: both latest files on disk; an empty
  disk with \<^verbatim>\<open>create_if_missing\<close>, for the latest and for a named checkpoint; an empty
  disk without it.
\<close>

theorem restore_checkpoint_three_way_witness:
  "restore_checkpoint example_paths None False saved_session =
     Returned (saved_session\<lparr>model := (model saved_session)\<lparr>step := 7, params := 1\<rparr>,
        optimizer := \<lparr>lr = 0, moments = 3\<rparr>,
        trace := trace saved_session @
          [Print (restoring_msg ''latest''),
           Print (loading_weights_msg ''latest'' [''checkpoints'', ''latest_weights.pyt'']),
           LoadModel [''checkpoints'', ''latest_weights.pyt''],
           Print (loading_optim_msg ''latest'' [''checkpoints'', ''latest_optim.pyt'']),
           LoadOptim [''checkpoints'', ''latest_optim.pyt'']]\<rparr>) \<and>
   (\<exists>st'. restore_checkpoint example_paths None True fresh_session = Returned st' \<and>
      files st' [''checkpoints'', ''latest_weights.pyt''] = Some (WeightsFile 0 0) \<and>
      files st' [''checkpoints'', ''latest_optim.pyt''] = Some (OptimFile \<lparr>lr = 0, moments = 0\<rparr>) \<and>
      written (new_events fresh_session (Returned st')) =
        [[''checkpoints'', ''latest_weights.pyt''], [''checkpoints'', ''latest_optim.pyt'']]) \<and>
   (\<exists>st'. restore_checkpoint example_paths (Some ''wave_step1K'') True fresh_session =
        Returned st' \<and>
      files st' [''checkpoints'', ''wave_step1K_weights.pyt''] = Some (WeightsFile 0 0) \<and>
      files st' [''checkpoints'', ''wave_step1K_optim.pyt''] =
        Some (OptimFile \<lparr>lr = 0, moments = 0\<rparr>) \<and>
      written (new_events fresh_session (Returned st')) =
        [[''checkpoints'', ''latest_weights.pyt''], [''checkpoints'', ''latest_optim.pyt''],
         [''checkpoints'', ''wave_step1K_weights.pyt''], [''checkpoints'', ''wave_step1K_optim.pyt'']]) \<and>
   restore_checkpoint example_paths None False fresh_session =
     Raised (FileNotFoundError (not_found_msg ''latest'')) fresh_session"
proof -
  have k: "checkpoint_kind None = ''latest''"
    by (simp add: checkpoint_kind_def name_given_def)
  have g: "\<not> name_given None" "name_given (Some ''wave_step1K'')"
    by (simp_all add: name_given_def)
  have p: "checkpoint_paths example_paths None = latest_paths example_paths"
    "checkpoint_paths example_paths (Some ''wave_step1K'') =
       named_paths example_paths ''wave_step1K''"
    by (simp_all add: name_given_def)
  have m: "step (model fresh_session) = 0" "params (model fresh_session) = 0"
    "optimizer fresh_session = \<lparr>lr = 0, moments = 0\<rparr>"
    by (simp_all add: fresh_session_def)
  have f: "files saved_session (weights_path (latest_paths example_paths)) = Some (WeightsFile 7 1)"
    "files saved_session (optim_path (latest_paths example_paths)) =
       Some (OptimFile \<lparr>lr = 0, moments = 3\<rparr>)"
    by (simp_all add: saved_session_def fresh_session_def)
  from f restore_checkpoint_three_way
    [where st = saved_session and ps = example_paths and name = None and cim = False
       and n = 7 and ws = 1 and os = "\<lparr>lr = 0, moments = 3\<rparr>",
     THEN conjunct2, THEN conjunct1]
  have a: "restore_checkpoint example_paths None False saved_session =
     Returned (saved_session\<lparr>model := (model saved_session)\<lparr>step := 7, params := 1\<rparr>,
        optimizer := \<lparr>lr = 0, moments = 3\<rparr>,
        trace := trace saved_session @
          [Print (restoring_msg ''latest''),
           Print (loading_weights_msg ''latest'' [''checkpoints'', ''latest_weights.pyt'']),
           LoadModel [''checkpoints'', ''latest_weights.pyt''],
           Print (loading_optim_msg ''latest'' [''checkpoints'', ''latest_optim.pyt'']),
           LoadOptim [''checkpoints'', ''latest_optim.pyt'']]\<rparr>)"
    by (simp add: k p)
  have z1: "num_exist (files fresh_session) (checkpoint_paths example_paths None) = 0 \<and> True"
    by (simp add: p)
  have ok1: "name_given None \<longrightarrow>
      num_exist (files fresh_session) (latest_paths example_paths) \<noteq> 1 \<and>
      apart (latest_paths example_paths) (named_paths example_paths (the None))"
    by (simp add: g)
  from restore_checkpoint_three_way
    [where st = fresh_session and ps = example_paths and name = None and cim = True,
     THEN conjunct2, THEN conjunct2, THEN conjunct1, THEN mp, OF z1, THEN conjunct2,
     THEN mp, OF ok1]
  obtain s1 where b1: "restore_checkpoint example_paths None True fresh_session = Returned s1"
    and b2: "files s1 (optim_path (checkpoint_paths example_paths None)) =
               Some (OptimFile (optimizer fresh_session))"
    and b3: "weights_path (checkpoint_paths example_paths None) \<noteq>
               optim_path (checkpoint_paths example_paths None) \<longrightarrow>
             files s1 (weights_path (checkpoint_paths example_paths None)) =
               Some (WeightsFile (step (model fresh_session)) (params (model fresh_session)))"
    and b4: "written (new_events fresh_session (Returned s1)) =
               (if name_given None
                then [voc_latest_weights example_paths, voc_latest_optim example_paths,
                      weights_path (named_paths example_paths (the None)),
                      optim_path (named_paths example_paths (the None))]
                else [voc_latest_weights example_paths, voc_latest_optim example_paths])"
    by blast
  from b1 b2 b3 b4
  have b: "\<exists>st'. restore_checkpoint example_paths None True fresh_session = Returned st' \<and>
      files st' [''checkpoints'', ''latest_weights.pyt''] = Some (WeightsFile 0 0) \<and>
      files st' [''checkpoints'', ''latest_optim.pyt''] = Some (OptimFile \<lparr>lr = 0, moments = 0\<rparr>) \<and>
      written (new_events fresh_session (Returned st')) =
        [[''checkpoints'', ''latest_weights.pyt''], [''checkpoints'', ''latest_optim.pyt'']]"
    by (simp add: p g m)
  have z2: "num_exist (files fresh_session)
      (checkpoint_paths example_paths (Some ''wave_step1K'')) = 0 \<and> True"
    by (simp add: p)
  have ok2: "name_given (Some ''wave_step1K'') \<longrightarrow>
      num_exist (files fresh_session) (latest_paths example_paths) \<noteq> 1 \<and>
      apart (latest_paths example_paths)
        (named_paths example_paths (the (Some ''wave_step1K'')))"
    by simp
  from restore_checkpoint_three_way
    [where st = fresh_session and ps = example_paths and name = "Some ''wave_step1K''"
       and cim = True,
     THEN conjunct2, THEN conjunct2, THEN conjunct1, THEN mp, OF z2, THEN conjunct2,
     THEN mp, OF ok2]
  obtain s2 where c1: "restore_checkpoint example_paths (Some ''wave_step1K'') True
        fresh_session = Returned s2"
    and c2: "files s2 (optim_path (checkpoint_paths example_paths (Some ''wave_step1K''))) =
               Some (OptimFile (optimizer fresh_session))"
    and c3: "weights_path (checkpoint_paths example_paths (Some ''wave_step1K'')) \<noteq>
               optim_path (checkpoint_paths example_paths (Some ''wave_step1K'')) \<longrightarrow>
             files s2 (weights_path (checkpoint_paths example_paths (Some ''wave_step1K''))) =
               Some (WeightsFile (step (model fresh_session)) (params (model fresh_session)))"
    and c4: "written (new_events fresh_session (Returned s2)) =
               (if name_given (Some ''wave_step1K'')
                then [voc_latest_weights example_paths, voc_latest_optim example_paths,
                      weights_path (named_paths example_paths (the (Some ''wave_step1K''))),
                      optim_path (named_paths example_paths (the (Some ''wave_step1K'')))]
                else [voc_latest_weights example_paths, voc_latest_optim example_paths])"
    by blast
  from c1 c2 c3 c4
  have c: "\<exists>st'. restore_checkpoint example_paths (Some ''wave_step1K'') True fresh_session =
        Returned st' \<and>
      files st' [''checkpoints'', ''wave_step1K_weights.pyt''] = Some (WeightsFile 0 0) \<and>
      files st' [''checkpoints'', ''wave_step1K_optim.pyt''] =
        Some (OptimFile \<lparr>lr = 0, moments = 0\<rparr>) \<and>
      written (new_events fresh_session (Returned st')) =
        [[''checkpoints'', ''latest_weights.pyt''], [''checkpoints'', ''latest_optim.pyt''],
         [''checkpoints'', ''wave_step1K_weights.pyt''], [''checkpoints'', ''wave_step1K_optim.pyt'']]"
    by (simp add: p g m)
  from restore_checkpoint_three_way
    [where st = fresh_session and ps = example_paths and name = None and cim = False,
     THEN conjunct2, THEN conjunct2, THEN conjunct2]
  have d: "restore_checkpoint example_paths None False fresh_session =
     Raised (FileNotFoundError (not_found_msg ''latest'')) fresh_session"
    by (simp add: k p)
  from a b c d show ?thesis by blast
qed

text \<open>
  Claim C2 says that with exactly one artifact present the restore fails with a
  corrupted-checkpoint error that differs from the missing-checkpoint error, whatever
  \<^verbatim>\<open>create_if_missing\<close> is. With only the latest weights on disk and
  \<^verbatim>\<open>create_if_missing\<close> unset, the code raises the very error it raises on an empty disk:
  the message that the checkpoint could not be found.
\<close>

theorem restore_half_present_counterexample:
  "num_exist (files half_latest_session) (checkpoint_paths example_paths None) = 1 \<and>
   restore_checkpoint example_paths None False half_latest_session =
     Raised (FileNotFoundError (not_found_msg ''latest'')) half_latest_session \<and>
   restore_checkpoint example_paths None False fresh_session =
     Raised (FileNotFoundError (not_found_msg ''latest'')) fresh_session \<and>
   not_found_msg ''latest'' \<noteq> broken_msg ''latest''"
  by (simp add: restore_checkpoint_def Let_def not_found_msg_def broken_msg_def)

text \<open>
  Claim C2 as amended. With exactly one of the two artifacts present (and, for a named
  checkpoint, no file shared between the named and the latest pair), the restore raises
  \<^verbatim>\<open>FileNotFoundError\<close> for both values of \<^verbatim>\<open>create_if_missing\<close>: unset, with the
  could-not-be-found message and the session untouched; set, with the exactly-one message
  that \<^verbatim>\<open>save_checkpoint\<close> raises. In both cases the pair is still half present afterwards
  and the model and the optimizer are the ones before the call.
\<close>

theorem restore_checkpoint_half_present:
  fixes st :: "('w, 'o) session"
  assumes "num_exist (files st) (checkpoint_paths ps name) = 1"
      and "name_given name \<longrightarrow> apart (latest_paths ps) (named_paths ps (the name))"
  shows "\<exists>st'. restore_checkpoint ps name create_if_missing st =
             Raised (FileNotFoundError
               (if create_if_missing
                then broken_msg (if num_exist (files st) (latest_paths ps) = 1
                                 then ''latest'' else ''named'')
                else not_found_msg (checkpoint_kind name))) st' \<and>
           (\<not> create_if_missing \<longrightarrow> st' = st) \<and>
           num_exist (files st') (checkpoint_paths ps name) = 1 \<and>
           model st' = model st \<and> optimizer st' = optimizer st"
proof (cases create_if_missing)
  case False
  with assms(1) show ?thesis
    by (simp add: restore_checkpoint_def Let_def)
next
  case True
  from save_half_present [OF assms, of False]
  obtain st' where s: "save_checkpoint ps name False st =
      Raised (FileNotFoundError (broken_msg
         (if num_exist (files st) (latest_paths ps) = 1 then ''latest'' else ''named''))) st'"
    and fw: "files st' (weights_path (checkpoint_paths ps name)) =
             files st (weights_path (checkpoint_paths ps name))"
    and fo: "files st' (optim_path (checkpoint_paths ps name)) =
             files st (optim_path (checkpoint_paths ps name))"
    and m: "model st' = model st" and o: "optimizer st' = optimizer st"
    by blast
  from fw fo have "num_exist (files st') (checkpoint_paths ps name) =
      num_exist (files st) (checkpoint_paths ps name)"
    by (simp add: num_exist_def exists_def)
  with assms(1) s m o True show ?thesis
    by (simp add: restore_checkpoint_def Let_def)
qed

theorem restore_checkpoint_half_present_witness:
  "raised (restore_checkpoint example_paths None True half_latest_session) =
     Some (FileNotFoundError (broken_msg ''latest'')) \<and>
   raised (restore_checkpoint example_paths None False half_latest_session) =
     Some (FileNotFoundError (not_found_msg ''latest'')) \<and>
   raised (restore_checkpoint example_paths (Some ''wave_step1K'') True half_named_session) =
     Some (FileNotFoundError (broken_msg ''named''))"
proof -
  have a: "raised (restore_checkpoint example_paths None True half_latest_session) =
     Some (FileNotFoundError (broken_msg ''latest''))"
    using restore_checkpoint_half_present
      [where st = half_latest_session and ps = example_paths and name = None
         and create_if_missing = True]
    by (auto simp add: raised_def)
  have b: "raised (restore_checkpoint example_paths None False half_latest_session) =
     Some (FileNotFoundError (not_found_msg ''latest''))"
    using restore_checkpoint_half_present
      [where st = half_latest_session and ps = example_paths and name = None
         and create_if_missing = False]
    by (auto simp add: raised_def)
  have c: "raised (restore_checkpoint example_paths (Some ''wave_step1K'') True
       half_named_session) = Some (FileNotFoundError (broken_msg ''named''))"
    using restore_checkpoint_half_present
      [where st = half_named_session and ps = example_paths and name = "Some ''wave_step1K''"
         and create_if_missing = True]
    by (auto simp add: raised_def)
  from a b c show ?thesis by simp
qed

section \<open>Saving a checkpoint\<close>

text \<open>
  Claim C3 says that a save that finds exactly one artifact of the pair still writes both
  and does not raise. With only the latest weights on disk the save raises and the
  optimizer file is still absent.
\<close>

theorem save_proceeds_counterexample:
  "num_exist (files half_latest_session) (checkpoint_paths example_paths None) = 1 \<and>
   save_checkpoint example_paths None True half_latest_session =
     Raised (FileNotFoundError (broken_msg ''latest'')) half_latest_session \<and>
   files half_latest_session (voc_latest_optim example_paths) = None"
  by (simp add: save_checkpoint_def helper_broken)

text \<open>
  Claim C3 as amended. When exactly one of the two artifacts of the checkpoint that is
  asked for exists (and, for a named checkpoint, no file is shared between the named and
  the latest pair), \<^verbatim>\<open>save_checkpoint\<close> raises \<^verbatim>\<open>FileNotFoundError\<close> with the exactly-one
  message, and the two files of that checkpoint are what they were before the call.
\<close>

theorem save_checkpoint_half_present:
  fixes st :: "('w, 'o) session"
  assumes "num_exist (files st) (checkpoint_paths ps name) = 1"
      and "name_given name \<longrightarrow> apart (latest_paths ps) (named_paths ps (the name))"
  shows "\<exists>st'. save_checkpoint ps name is_silent st =
             Raised (FileNotFoundError (broken_msg
               (if num_exist (files st) (latest_paths ps) = 1 then ''latest'' else ''named''))) st' \<and>
           files st' (weights_path (checkpoint_paths ps name)) =
             files st (weights_path (checkpoint_paths ps name)) \<and>
           files st' (optim_path (checkpoint_paths ps name)) =
             files st (optim_path (checkpoint_paths ps name))"
  using save_half_present [OF assms, of is_silent] by blast

theorem save_checkpoint_half_present_witness:
  "raised (save_checkpoint example_paths None True half_latest_session) =
     Some (FileNotFoundError (broken_msg ''latest'')) \<and>
   raised (save_checkpoint example_paths (Some ''wave_step1K'') True half_named_session) =
     Some (FileNotFoundError (broken_msg ''named''))"
proof -
  have a: "raised (save_checkpoint example_paths None True half_latest_session) =
     Some (FileNotFoundError (broken_msg ''latest''))"
    using save_checkpoint_half_present
      [where st = half_latest_session and ps = example_paths and name = None
         and is_silent = True]
    by (auto simp add: raised_def)
  have b: "raised (save_checkpoint example_paths (Some ''wave_step1K'') True
       half_named_session) = Some (FileNotFoundError (broken_msg ''named''))"
    using save_checkpoint_half_present
      [where st = half_named_session and ps = example_paths and name = "Some ''wave_step1K''"
         and is_silent = True]
    by (auto simp add: raised_def)
  from a b show ?thesis by simp
qed

text \<open>
  Claim C8 says that two saves of the latest checkpoint in a row both succeed. Started
  with only the latest weights on disk, already the first save raises and the pair stays
  half present.
\<close>

theorem save_twice_counterexample:
  "num_exist (files half_latest_session) (latest_paths example_paths) = 1 \<and>
   raised (save_checkpoint example_paths None False half_latest_session) =
     Some (FileNotFoundError (broken_msg ''latest'')) \<and>
   num_exist (files (final (save_checkpoint example_paths None False half_latest_session)))
     (latest_paths example_paths) = 1"
  by (simp add: save_checkpoint_def helper_broken)

text \<open>
  Claim C8 as amended. If the latest pair is not half present at the first call, two
  saves of the latest checkpoint in a row both return, both latest files exist after each
  of them, the second save leaves the files as the first wrote them, and the model, with
  its step counter, is the one before the calls.
\<close>

theorem save_latest_twice:
  fixes st :: "('w, 'o) session"
  assumes "\<not> name_given name" and "num_exist (files st) (latest_paths ps) \<noteq> 1"
  shows "\<exists>s1 s2. save_checkpoint ps name is_silent st = Returned s1 \<and>
           save_checkpoint ps name is_silent s1 = Returned s2 \<and>
           num_exist (files s1) (latest_paths ps) = 2 \<and>
           num_exist (files s2) (latest_paths ps) = 2 \<and>
           files s2 = files s1 \<and>
           step (model s1) = step (model st) \<and> step (model s2) = step (model st) \<and>
           model s2 = model st"
proof -
  from assms(2) have ne: "num_exist (files st) (latest_paths ps) \<noteq> Suc 0" by simp
  from helper_ok [OF ne, of is_silent False]
  obtain s1 where h1: "helper is_silent (latest_paths ps) False st = Returned s1"
    and f1: "files s1 = (files st)(weights_path (latest_paths ps) \<mapsto>
                 WeightsFile (step (model st)) (params (model st)),
               optim_path (latest_paths ps) \<mapsto> OptimFile (optimizer st))"
    and m1: "model s1 = model st"
    by blast
  from helper_latest_second [OF ne h1]
  obtain s2 where h2: "helper is_silent (latest_paths ps) False s1 = Returned s2"
    and f2: "files s2 = files s1" and m2: "model s2 = model s1"
    by blast
  from f1 have n1: "num_exist (files s1) (latest_paths ps) = 2"
    by (simp only: num_exist_after_helper)
  from h1 h2 assms(1) have "save_checkpoint ps name is_silent st = Returned s1"
    "save_checkpoint ps name is_silent s1 = Returned s2"
    by (simp_all add: save_checkpoint_def)
  with n1 f2 m1 m2 show ?thesis by simp
qed

theorem save_latest_twice_witness:
  "\<exists>s1 s2. save_checkpoint example_paths None True fresh_session = Returned s1 \<and>
     save_checkpoint example_paths None True s1 = Returned s2 \<and>
     num_exist (files s2) (latest_paths example_paths) = 2 \<and>
     step (model s2) = 0"
proof -
  from save_latest_twice
    [where st = fresh_session and ps = example_paths and name = None and is_silent = True]
  obtain s1 s2 where "save_checkpoint example_paths None True fresh_session = Returned s1"
    "save_checkpoint example_paths None True s1 = Returned s2"
    "num_exist (files s2) (latest_paths example_paths) = 2"
    "step (model s2) = step (model fresh_session)"
    by auto
  then show ?thesis by (auto simp add: fresh_session_def)
qed

text \<open>
  Claim C9 says that every call of \<^verbatim>\<open>save_checkpoint\<close> writes the two latest files. A
  call that finds only the latest weights on disk raises before any write.
\<close>

theorem save_always_writes_latest_counterexample:
  "raised (save_checkpoint example_paths (Some ''wave_step1K'') True half_latest_session) =
     Some (FileNotFoundError (broken_msg ''latest'')) \<and>
   written (new_events half_latest_session
     (save_checkpoint example_paths (Some ''wave_step1K'') True half_latest_session)) = [] \<and>
   files (final (save_checkpoint example_paths (Some ''wave_step1K'') True half_latest_session))
     (voc_latest_optim example_paths) = None"
  by (simp add: save_checkpoint_def helper_broken new_events_def)

text \<open>
  Claim C9 as amended. Every call of \<^verbatim>\<open>save_checkpoint\<close> that does not find the latest
  pair half present, with or without a name, first writes the latest weights and then the
  latest optimizer state, before any other write. Consequently a restore of a named
  checkpoint that is not wholly present, with \<^verbatim>\<open>create_if_missing\<close> set, is that save,
  and it leaves the latest files holding the in-memory model and optimizer (the latest
  files being two files, neither of them a file of the named pair).
\<close>

theorem save_checkpoint_latest_first:
  fixes st :: "('w, 'o) session"
  assumes "num_exist (files st) (latest_paths ps) \<noteq> 1"
  shows "(\<exists>rest. written (new_events st (save_checkpoint ps name is_silent st)) =
            voc_latest_weights ps # voc_latest_optim ps # rest) \<and>
         (name_given name \<and> num_exist (files st) (named_paths ps (the name)) \<noteq> 2 \<and>
          apart (latest_paths ps) (named_paths ps (the name)) \<and>
          voc_latest_weights ps \<noteq> voc_latest_optim ps \<longrightarrow>
            restore_checkpoint ps name True st = save_checkpoint ps name False st \<and>
            files (final (restore_checkpoint ps name True st)) (voc_latest_weights ps) =
              Some (WeightsFile (step (model st)) (params (model st))) \<and>
            files (final (restore_checkpoint ps name True st)) (voc_latest_optim ps) =
              Some (OptimFile (optimizer st)))"
proof -
  from assms have ne: "num_exist (files st) (latest_paths ps) \<noteq> Suc 0" by simp
  from helper_ok [OF ne, of is_silent False]
  obtain s1 evs where h1: "helper is_silent (latest_paths ps) False st = Returned s1"
    and t1: "trace s1 = trace st @ evs"
    and w1: "written evs = [weights_path (latest_paths ps), optim_path (latest_paths ps)]"
    by blast
  have first: "\<exists>rest. written (new_events st (save_checkpoint ps name is_silent st)) =
            voc_latest_weights ps # voc_latest_optim ps # rest"
  proof (cases "name_given name")
    case False
    with h1 have "save_checkpoint ps name is_silent st = Returned s1"
      by (simp add: save_checkpoint_def)
    with t1 w1 show ?thesis by simp
  next
    case True
    from helper_frame [of is_silent "named_paths ps (the name)" True s1]
    obtain evs2 where "trace (final (helper is_silent (named_paths ps (the name)) True s1)) =
        trace s1 @ evs2"
      by blast
    with t1 have "trace (final (helper is_silent (named_paths ps (the name)) True s1)) =
        trace st @ (evs @ evs2)"
      by simp
    moreover from h1 True have "save_checkpoint ps name is_silent st =
        helper is_silent (named_paths ps (the name)) True s1"
      by (simp add: save_checkpoint_def)
    ultimately have "new_events st (save_checkpoint ps name is_silent st) = evs @ evs2"
      by simp
    with w1 show ?thesis by simp
  qed
  have second: "restore_checkpoint ps name True st = save_checkpoint ps name False st \<and>
            files (final (restore_checkpoint ps name True st)) (voc_latest_weights ps) =
              Some (WeightsFile (step (model st)) (params (model st))) \<and>
            files (final (restore_checkpoint ps name True st)) (voc_latest_optim ps) =
              Some (OptimFile (optimizer st))"
    if given: "name_given name"
      and missing: "num_exist (files st) (named_paths ps (the name)) \<noteq> 2"
      and ap: "apart (latest_paths ps) (named_paths ps (the name))"
      and neq: "voc_latest_weights ps \<noteq> voc_latest_optim ps"
  proof -
    from helper_ok [OF ne, of False False]
    obtain s1 where h1: "helper False (latest_paths ps) False st = Returned s1"
      and f1: "files s1 = (files st)(weights_path (latest_paths ps) \<mapsto>
                 WeightsFile (step (model st)) (params (model st)),
               optim_path (latest_paths ps) \<mapsto> OptimFile (optimizer st))"
      by blast
    from ap have out: "voc_latest_weights ps \<noteq> weights_path (named_paths ps (the name))"
      "voc_latest_weights ps \<noteq> optim_path (named_paths ps (the name))"
      "voc_latest_optim ps \<noteq> weights_path (named_paths ps (the name))"
      "voc_latest_optim ps \<noteq> optim_path (named_paths ps (the name))"
      by (auto simp add: apart_def)
    from h1 given have s: "save_checkpoint ps name False st =
        helper False (named_paths ps (the name)) True s1"
      by (simp add: save_checkpoint_def)
    from missing given have r: "restore_checkpoint ps name True st =
        save_checkpoint ps name False st"
      by (simp add: restore_checkpoint_def Let_def)
    from f1 neq have "files s1 (voc_latest_weights ps) =
        Some (WeightsFile (step (model st)) (params (model st)))"
      "files s1 (voc_latest_optim ps) = Some (OptimFile (optimizer st))"
      by simp_all
    with helper_files_other [OF out(1,2), of False True s1]
         helper_files_other [OF out(3,4), of False True s1] r s
    show ?thesis by simp
  qed
  from first second show ?thesis by blast
qed

theorem save_checkpoint_latest_first_witness:
  "(\<exists>rest. written (new_events fresh_session
       (save_checkpoint example_paths (Some ''wave_step1K'') True fresh_session)) =
       [''checkpoints'', ''latest_weights.pyt''] # [''checkpoints'', ''latest_optim.pyt''] # rest) \<and>
   restore_checkpoint example_paths (Some ''wave_step1K'') True fresh_session =
     save_checkpoint example_paths (Some ''wave_step1K'') False fresh_session \<and>
   files (final (restore_checkpoint example_paths (Some ''wave_step1K'') True fresh_session))
     [''checkpoints'', ''latest_weights.pyt''] = Some (WeightsFile 0 0) \<and>
   files (final (restore_checkpoint example_paths (Some ''wave_step1K'') True fresh_session))
     [''checkpoints'', ''latest_optim.pyt''] = Some (OptimFile \<lparr>lr = 0, moments = 0\<rparr>)"
proof -
  have m: "step (model fresh_session) = 0" "params (model fresh_session) = 0"
    "optimizer fresh_session = \<lparr>lr = 0, moments = 0\<rparr>"
    by (simp_all add: fresh_session_def)
  have ne: "num_exist (files fresh_session) (latest_paths example_paths) \<noteq> 1"
    by simp
  have h: "name_given (Some ''wave_step1K'') \<and>
      num_exist (files fresh_session) (named_paths example_paths (the (Some ''wave_step1K''))) \<noteq> 2 \<and>
      apart (latest_paths example_paths) (named_paths example_paths (the (Some ''wave_step1K''))) \<and>
      voc_latest_weights example_paths \<noteq> voc_latest_optim example_paths"
    by simp
  note t = save_checkpoint_latest_first
    [where st = fresh_session and ps = example_paths and name = "Some ''wave_step1K''"
       and is_silent = True, OF ne]
  note b = t [THEN conjunct2, THEN mp, OF h]
  from t [THEN conjunct1] b [THEN conjunct1] b [THEN conjunct2, THEN conjunct1]
    b [THEN conjunct2, THEN conjunct2]
  show ?thesis by (simp add: m)
qed

text \<open>
  Claim C10. A save with a name that finds the latest pair whole or absent and exactly one
  file of the named pair (no file being shared between the two pairs) raises the
  exactly-one error for the named checkpoint only after it has written both latest files:
  the session it leaves has the latest files holding the in-memory state, and the writes
  of the call are those two.
\<close>

theorem save_checkpoint_not_atomic:
  fixes st :: "('w, 'o) session"
  assumes "name_given name"
      and "num_exist (files st) (latest_paths ps) \<noteq> 1"
      and "num_exist (files st) (named_paths ps (the name)) = 1"
      and "apart (latest_paths ps) (named_paths ps (the name))"
  shows "\<exists>st'. save_checkpoint ps name is_silent st =
             Raised (FileNotFoundError (broken_msg ''named'')) st' \<and>
           files st' = (files st)(voc_latest_weights ps \<mapsto>
                          WeightsFile (step (model st)) (params (model st)),
                        voc_latest_optim ps \<mapsto> OptimFile (optimizer st)) \<and>
           written (new_events st (save_checkpoint ps name is_silent st)) =
             [voc_latest_weights ps, voc_latest_optim ps]"
proof -
  from assms(2) have ne: "num_exist (files st) (latest_paths ps) \<noteq> Suc 0" by simp
  from helper_ok [OF ne, of is_silent False]
  obtain s1 evs where h1: "helper is_silent (latest_paths ps) False st = Returned s1"
    and f1: "files s1 = (files st)(weights_path (latest_paths ps) \<mapsto>
                 WeightsFile (step (model st)) (params (model st)),
               optim_path (latest_paths ps) \<mapsto> OptimFile (optimizer st))"
    and t1: "trace s1 = trace st @ evs"
    and w1: "written evs = [weights_path (latest_paths ps), optim_path (latest_paths ps)]"
    by blast
  from f1 assms(3,4) have "num_exist (files s1) (named_paths ps (the name)) = Suc 0"
    by (simp only: num_exist_frame One_nat_def)
  then have "helper is_silent (named_paths ps (the name)) True s1 =
      Raised (FileNotFoundError (broken_msg ''named'')) s1"
    by (simp add: helper_broken)
  with h1 assms(1) have "save_checkpoint ps name is_silent st =
      Raised (FileNotFoundError (broken_msg ''named'')) s1"
    by (simp add: save_checkpoint_def)
  with f1 t1 w1 show ?thesis by simp
qed

theorem save_checkpoint_not_atomic_witness:
  "\<exists>st'. save_checkpoint example_paths (Some ''wave_step1K'') True half_named_session =
       Raised (FileNotFoundError (broken_msg ''named'')) st' \<and>
     files st' [''checkpoints'', ''latest_weights.pyt''] = Some (WeightsFile 0 0) \<and>
     files st' [''checkpoints'', ''latest_optim.pyt''] = Some (OptimFile \<lparr>lr = 0, moments = 0\<rparr>) \<and>
     files half_named_session [''checkpoints'', ''latest_weights.pyt''] = None \<and>
     written (new_events half_named_session
        (save_checkpoint example_paths (Some ''wave_step1K'') True half_named_session)) =
       [[''checkpoints'', ''latest_weights.pyt''], [''checkpoints'', ''latest_optim.pyt'']]"
proof -
  have m: "step (model half_named_session) = 0" "params (model half_named_session) = 0"
    "optimizer half_named_session = \<lparr>lr = 0, moments = 0\<rparr>"
    "files half_named_session [''checkpoints'', ''latest_weights.pyt''] = None"
    by (simp_all add: half_named_session_def fresh_session_def)
  from save_checkpoint_not_atomic
    [where st = half_named_session and ps = example_paths and name = "Some ''wave_step1K''"
       and is_silent = True]
  obtain st' where "save_checkpoint example_paths (Some ''wave_step1K'') True half_named_session =
       Raised (FileNotFoundError (broken_msg ''named'')) st'"
    "files st' = (files half_named_session)(voc_latest_weights example_paths \<mapsto>
                          WeightsFile (step (model half_named_session)) (params (model half_named_session)),
                        voc_latest_optim example_paths \<mapsto> OptimFile (optimizer half_named_session))"
    "written (new_events half_named_session
        (save_checkpoint example_paths (Some ''wave_step1K'') True half_named_session)) =
             [voc_latest_weights example_paths, voc_latest_optim example_paths]"
    by auto
  then show ?thesis by (simp add: m)
qed

section \<open>Facts about the training loop\<close>

text \<open>
  Saving never touches the model or the optimizer, and only adds to the trace.
\<close>

lemma save_checkpoint_frame:
  "\<exists>evs. trace (final (save_checkpoint ps name sil st)) = trace st @ evs \<and>
         model (final (save_checkpoint ps name sil st)) = model st \<and>
         optimizer (final (save_checkpoint ps name sil st)) = optimizer st"
proof (cases "helper sil (latest_paths ps) False st")
  case (Raised e s1)
  with helper_frame [of sil "latest_paths ps" False st] show ?thesis
    by (simp add: save_checkpoint_def)
next
  case (Returned s1)
  with helper_frame [of sil "latest_paths ps" False st]
  obtain evs where a: "trace s1 = trace st @ evs" "model s1 = model st"
    "optimizer s1 = optimizer st"
    by auto
  show ?thesis
  proof (cases "name_given name")
    case False
    with Returned a show ?thesis by (simp add: save_checkpoint_def)
  next
    case True
    from helper_frame [of sil "named_paths ps (the name)" True s1]
    obtain evs2 where "trace (final (helper sil (named_paths ps (the name)) True s1)) = trace s1 @ evs2"
      "model (final (helper sil (named_paths ps (the name)) True s1)) = model s1"
      "optimizer (final (helper sil (named_paths ps (the name)) True s1)) = optimizer s1"
      by auto
    with Returned a True show ?thesis by (simp add: save_checkpoint_def)
  qed
qed

lemma checkpoint_and_report_frame:
  "\<exists>evs. trace (final (checkpoint_and_report hp ps e n i ti st)) = trace st @ evs \<and>
         model (final (checkpoint_and_report hp ps e n i ti st)) = model st"
proof (cases "voc_checkpoint_every hp = 0")
  case True
  then show ?thesis by (simp add: checkpoint_and_report_def)
next
  case z: False
  show ?thesis
  proof (cases "step (model st) mod voc_checkpoint_every hp = 0")
    case False
    with z show ?thesis by (simp add: checkpoint_and_report_def Let_def emit_def)
  next
    case True
    let ?st = "emit (GenTestset (voc_output ps)) st"
    let ?nm = "Some (''wave_step'' @ show_int (step (model st) div 1000) @ ''K'')"
    from save_checkpoint_frame [of ps ?nm True ?st]
    obtain evs where a: "trace (final (save_checkpoint ps ?nm True ?st)) = trace ?st @ evs"
      "model (final (save_checkpoint ps ?nm True ?st)) = model ?st"
      by auto
    show ?thesis
    proof (cases "save_checkpoint ps ?nm True ?st")
      case (Returned s')
      with a z True show ?thesis
        by (simp add: checkpoint_and_report_def Let_def emit_def)
    next
      case (Raised err s')
      with a z True show ?thesis
        by (simp add: checkpoint_and_report_def Let_def emit_def)
    qed
  qed
qed

lemma checkpoint_and_report_returns:
  "voc_checkpoint_every hp \<noteq> 0 \<Longrightarrow> step (model st) mod voc_checkpoint_every hp \<noteq> 0 \<Longrightarrow>
   checkpoint_and_report hp ps e n i ti st =
     Returned (emit (Stream e n (int i) ti (step (model st) div 1000)) st)"
  by (simp add: checkpoint_and_report_def Let_def)

text \<open>
  The gradient segment when the norm is not a number, and one pass of the loop body once
  the loss inputs are formed.
\<close>

lemma clip_and_step_nan:
  assumes "voc_clip_grad_norm hp = Some c"
      and "snd (clip_grad_norm env c (params (model st)))"
  shows "trace (clip_and_step env hp st) =
           trace st @ [ClipGradNorm, Print ''grad_norm was NaN!'', OptimizerStep]"
    and "step (model (clip_and_step env hp st)) = step (model st)"
    and "params (model (clip_and_step env hp st)) =
           fst (optimizer_step env (optimizer st) (fst (clip_grad_norm env c (params (model st)))))"
    and "optimizer (clip_and_step env hp st) =
           snd (optimizer_step env (optimizer st) (fst (clip_grad_norm env c (params (model st)))))"
  using assms by (simp_all add: clip_and_step_def Let_def emit_def)

lemma clip_and_step_step [simp]:
  "step (model (clip_and_step env hp st)) = step (model st)"
  by (simp add: clip_and_step_def Let_def emit_def split: option.split)

lemma train_batch_run:
  fixes st :: "('w, 'o) session"
  assumes "loss_inputs (mode (model st))
             (forward env (params (model st)) (to_device (device (model st)) x)
                (to_device (device (model st)) m))
             (to_device (device (model st)) y) = Inr (yh, yt)"
  shows "\<exists>fwd. train_batch env hp ps lf e n ti (i, x, y, m) st =
           checkpoint_and_report hp ps e n i ti
             (advance_step (clip_and_step env hp
                (st\<lparr>model := (model st)\<lparr>params := backward env lf yh yt (params (model st))\<rparr>,
                    trace := trace st @ [fwd, LossCall lf yh yt, ZeroGrad, Backward]\<rparr>)))"
proof -
  from assms have "train_batch env hp ps lf e n ti (i, x, y, m) st =
           checkpoint_and_report hp ps e n i ti
             (advance_step (clip_and_step env hp
                (st\<lparr>model := (model st)\<lparr>params := backward env lf yh yt (params (model st))\<rparr>,
                    trace := trace st @
                      [forward_event env (device (model st)) (to_device (device (model st)) x)
                         (to_device (device (model st)) m),
                       LossCall lf yh yt, ZeroGrad, Backward]\<rparr>)))"
    by (simp add: train_batch_def Let_def emit_def)
  then show ?thesis by blast
qed

text \<open>
  For a positive number of iterations per epoch, the epoch count of line 97 is the ceiling
  of the specification when the iterations per epoch do not divide the remaining steps, and
  one more than it when they do.
\<close>

lemma epochs_ceiling:
  assumes "0 < n"
  shows "epochs t s n = (if n dvd (t - s) then spec_epochs t s n + 1 else spec_epochs t s n)"
proof -
  have "spec_epochs t s n = - ((- (t - s)) div n)"
    unfolding spec_epochs_def by (rule ceiling_divide_eq_div)
  also have "\<dots> = (if (t - s) mod n = 0 then (t - s) div n else (t - s) div n + 1)"
    using assms zdiv_zminus1_eq_if [of n "t - s"] by (simp del: minus_diff_eq)
  finally show ?thesis
    by (auto simp add: epochs_def dvd_eq_mod_eq_0)
qed

lemma fresh_model [simp]:
  "model fresh_session = \<lparr>step = 0, mode = ''RAW'', device = CPU, params = 0\<rparr>"
  "optimizer fresh_session = \<lparr>lr = 0, moments = 0\<rparr>"
  "trace fresh_session = []"
  by (simp_all add: fresh_session_def)

lemma example_torch_sel [simp]:
  "cuda_is_available example_torch" "cuda_device_count example_torch = 2"
  "forward example_torch ws x m = \<lparr>shape = [32, 5, 4], dtype = Float32, dev = dev x\<rparr>"
  "backward example_torch lf y_hat y ws = ws"
  "clip_grad_norm example_torch c ws = (ws, True)"
  "optimizer_step example_torch ost ws = (Suc ws, ost\<lparr>moments := Suc (moments ost)\<rparr>)"
  by (simp_all add: example_torch_def)

lemma example_hparams_sel [simp]:
  "voc_clip_grad_norm example_hparams = Some 4"
  "voc_checkpoint_every example_hparams = 500"
  "voc_batch_size example_hparams = 32"
  by (simp_all add: example_hparams_def)

section \<open>The epoch count\<close>

text \<open>
  Claim C4 says that the number of epochs the loop runs is the ceiling of the remaining
  steps over the iterations per epoch. Line 97 computes the floor plus one. With 2 steps to
  go and 1 iteration per epoch the ceiling is 2, the code computes 3, and the loop runs 3
  epochs and ends at step 3; with 1000 steps to go and 500 iterations per epoch it computes
  3 where the ceiling is 2, and with no step to go it still computes 1.
\<close>

theorem epochs_exact_division:
  "epochs 2 0 1 = 3 \<and> spec_epochs 2 0 1 = 2 \<and>
   epochs_logged (trace (final (voc_train_loop example_torch example_hparams example_paths
      CrossEntropy tiny_loader 0 2 fresh_session))) = 3 \<and>
   step (model (final (voc_train_loop example_torch example_hparams example_paths
      CrossEntropy tiny_loader 0 2 fresh_session))) = 3 \<and>
   epochs 1000 0 500 = 3 \<and> spec_epochs 1000 0 500 = 2 \<and>
   epochs 1000 1000 500 = 1 \<and> spec_epochs 1000 1000 500 = 0"
proof -
  have a: "epochs 2 0 1 = 3" "spec_epochs 2 0 1 = 2" "epochs 1000 0 500 = 3"
    "spec_epochs 1000 0 500 = 2" "epochs 1000 1000 500 = 1" "spec_epochs 1000 1000 500 = 0"
    by (simp_all add: epochs_def spec_epochs_def)
  have b: "epochs_logged (trace (final (voc_train_loop example_torch example_hparams
      example_paths CrossEntropy tiny_loader 0 2 fresh_session))) = 3"
    by code_simp
  have c: "step (model (final (voc_train_loop example_torch example_hparams example_paths
      CrossEntropy tiny_loader 0 2 fresh_session))) = 3"
    by code_simp
  from a b c show ?thesis by simp
qed

section \<open>A gradient norm that is not a number\<close>

text \<open>
  Claim C5. Take one pass of the loop body with a clipping threshold configured, in which
  the loss inputs are formed and \<^verbatim>\<open>np.isnan\<close> holds of the norm that
  \<^verbatim>\<open>clip_grad_norm_\<close> returns. Then the warning is printed between the clipping and the
  optimizer update, the update is applied to the clipped parameters, and the step counter
  of the model at the end of the pass is one more than at its start. The pass returns
  whenever no checkpoint is due: nothing is raised on account of the norm.
\<close>

theorem nan_grad_norm_tolerated:
  fixes st :: "('w, 'o) session"
  assumes "voc_clip_grad_norm hp = Some c"
      and "loss_inputs (mode (model st))
             (forward env (params (model st)) (to_device (device (model st)) x)
                (to_device (device (model st)) m))
             (to_device (device (model st)) y) = Inr (yh, yt)"
      and "snd (clip_grad_norm env c (backward env lf yh yt (params (model st))))"
  shows "(\<exists>pre post. new_events st (train_batch env hp ps lf e n ti (i, x, y, m) st) =
            pre @ [ClipGradNorm, Print ''grad_norm was NaN!'', OptimizerStep] @ post) \<and>
         step (model (final (train_batch env hp ps lf e n ti (i, x, y, m) st))) =
           step (model st) + 1 \<and>
         params (model (final (train_batch env hp ps lf e n ti (i, x, y, m) st))) =
           fst (optimizer_step env (optimizer st)
                  (fst (clip_grad_norm env c (backward env lf yh yt (params (model st)))))) \<and>
         (voc_checkpoint_every hp \<noteq> 0 \<and>
          (step (model st) + 1) mod voc_checkpoint_every hp \<noteq> 0 \<longrightarrow>
            raised (train_batch env hp ps lf e n ti (i, x, y, m) st) = None)"
proof -
  from train_batch_run [OF assms(2), of hp ps lf e n ti i]
  obtain fwd where run: "train_batch env hp ps lf e n ti (i, x, y, m) st =
           checkpoint_and_report hp ps e n i ti
             (advance_step (clip_and_step env hp
                (st\<lparr>model := (model st)\<lparr>params := backward env lf yh yt (params (model st))\<rparr>,
                    trace := trace st @ [fwd, LossCall lf yh yt, ZeroGrad, Backward]\<rparr>)))"
    by blast
  let ?s3 = "st\<lparr>model := (model st)\<lparr>params := backward env lf yh yt (params (model st))\<rparr>,
                    trace := trace st @ [fwd, LossCall lf yh yt, ZeroGrad, Backward]\<rparr>"
  let ?s4 = "advance_step (clip_and_step env hp ?s3)"
  from assms(3) have nan: "snd (clip_grad_norm env c (params (model ?s3)))" by simp
  note cs = clip_and_step_nan [OF assms(1) nan]
  have tr: "trace ?s4 = trace st @ [fwd, LossCall lf yh yt, ZeroGrad, Backward] @
              [ClipGradNorm, Print ''grad_norm was NaN!'', OptimizerStep]"
    using cs(1) by (simp add: advance_step_def)
  have stp: "step (model ?s4) = step (model st) + 1"
    by (simp add: advance_step_def)
  have par: "params (model ?s4) = fst (optimizer_step env (optimizer st)
                  (fst (clip_grad_norm env c (backward env lf yh yt (params (model st))))))"
    using cs(3) by (simp add: advance_step_def)
  from checkpoint_and_report_frame [of hp ps e n i ti ?s4]
  obtain evs where fr: "trace (final (checkpoint_and_report hp ps e n i ti ?s4)) = trace ?s4 @ evs"
    "model (final (checkpoint_and_report hp ps e n i ti ?s4)) = model ?s4"
    by blast
  from fr(1) tr run
  have "new_events st (train_batch env hp ps lf e n ti (i, x, y, m) st) =
          [fwd, LossCall lf yh yt, ZeroGrad, Backward] @
          [ClipGradNorm, Print ''grad_norm was NaN!'', OptimizerStep] @ evs"
    by (simp add: new_events_def)
  then have a: "\<exists>pre post. new_events st (train_batch env hp ps lf e n ti (i, x, y, m) st) =
            pre @ [ClipGradNorm, Print ''grad_norm was NaN!'', OptimizerStep] @ post"
    by blast
  from fr(2) stp run
  have b: "step (model (final (train_batch env hp ps lf e n ti (i, x, y, m) st))) =
           step (model st) + 1"
    by simp
  from fr(2) par run
  have c: "params (model (final (train_batch env hp ps lf e n ti (i, x, y, m) st))) =
           fst (optimizer_step env (optimizer st)
                  (fst (clip_grad_norm env c (backward env lf yh yt (params (model st))))))"
    by simp
  have d: "raised (train_batch env hp ps lf e n ti (i, x, y, m) st) = None"
    if "voc_checkpoint_every hp \<noteq> 0" "(step (model st) + 1) mod voc_checkpoint_every hp \<noteq> 0"
    using that stp run by (simp add: checkpoint_and_report_returns)
  from a b c d show ?thesis by blast
qed

theorem nan_grad_norm_tolerated_witness:
  "(\<exists>pre post. new_events fresh_session
       (train_batch example_torch example_hparams example_paths CrossEntropy 1 3 1
          (1, example_batch) fresh_session) =
       pre @ [ClipGradNorm, Print ''grad_norm was NaN!'', OptimizerStep] @ post) \<and>
   step (model (final (train_batch example_torch example_hparams example_paths CrossEntropy 1 3 1
          (1, example_batch) fresh_session))) = 1 \<and>
   raised (train_batch example_torch example_hparams example_paths CrossEntropy 1 3 1
          (1, example_batch) fresh_session) = None"
proof -
  have li: "loss_inputs (mode (model fresh_session))
      (forward example_torch (params (model fresh_session))
         (to_device (device (model fresh_session)) \<lparr>shape = [32, 5], dtype = Float32, dev = CPU\<rparr>)
         (to_device (device (model fresh_session)) \<lparr>shape = [32, 80, 9], dtype = Float32, dev = CPU\<rparr>))
      (to_device (device (model fresh_session)) \<lparr>shape = [32, 5], dtype = Int64, dev = CPU\<rparr>) =
    Inr (\<lparr>shape = [32, 4, 5, 1], dtype = Float32, dev = CPU\<rparr>,
         \<lparr>shape = [32, 5, 1], dtype = Int64, dev = CPU\<rparr>)"
    by (simp add: loss_inputs_def tensor_transpose_def unsqueeze_last_def to_device_def)
  have nan: "snd (clip_grad_norm example_torch 4
      (backward example_torch CrossEntropy \<lparr>shape = [32, 4, 5, 1], dtype = Float32, dev = CPU\<rparr>
         \<lparr>shape = [32, 5, 1], dtype = Int64, dev = CPU\<rparr> (params (model fresh_session))))"
    by simp
  from nan_grad_norm_tolerated
    [where hp = example_hparams and env = example_torch and st = fresh_session and c = 4
       and lf = CrossEntropy and ps = example_paths and e = 1 and n = 3 and ti = 1 and i = 1,
     OF _ li nan]
  show ?thesis by (simp add: example_batch_def)
qed

section \<open>The batch size and the GPUs\<close>

text \<open>
  Claim C6. When the GPU is selected (CUDA is available and the CPU is not forced), a
  batch size that the number of devices does not divide makes \<^verbatim>\<open>main\<close> raise
  \<^verbatim>\<open>ValueError\<close> in the device check, before the model exists and so before any batch is
  processed; a batch size that it divides passes the check. A batch size of 32 on 2 devices
  passes, a batch size of 33 on 2 devices raises.
\<close>

theorem batch_size_checked_at_startup:
  assumes "\<not> force_cpu a" and "cuda_is_available env" and "cuda_device_count env \<noteq> 0"
  shows "(batch_size_of hp a mod int (cuda_device_count env) \<noteq> 0 \<longrightarrow>
            main env hp ps a train_set disk = Inl (ValueError batch_size_msg)) \<and>
         (batch_size_of hp a mod int (cuda_device_count env) = 0 \<longrightarrow>
            (\<exists>r. main env hp ps a train_set disk = Inr r)) \<and>
         select_device False True 2 32 = Inr CUDA \<and>
         select_device False True 2 33 = Inl (ValueError batch_size_msg)"
  using assms by (simp add: main_def select_device_def Let_def)

theorem batch_size_checked_at_startup_witness:
  "main example_torch example_hparams example_paths example_args
     tiny_loader Map.empty =
     Inl (ValueError batch_size_msg) \<and>
   (\<exists>r. main example_torch example_hparams example_paths
           (example_args\<lparr>arg_batch_size := Some 32\<rparr>)
           tiny_loader Map.empty = Inr r)"
proof -
  have f: "\<not> force_cpu example_args" "\<not> force_cpu (example_args\<lparr>arg_batch_size := Some 32\<rparr>)"
    by (simp_all add: example_args_def)
  have n: "cuda_device_count example_torch \<noteq> 0" by simp
  have b: "batch_size_of example_hparams example_args mod int (cuda_device_count example_torch) \<noteq> 0"
    "batch_size_of example_hparams (example_args\<lparr>arg_batch_size := Some 32\<rparr>) mod
       int (cuda_device_count example_torch) = 0"
    by (simp_all add: batch_size_of_def example_args_def)
  from batch_size_checked_at_startup [OF f(1) example_torch_sel(1) n, THEN conjunct1, THEN mp, OF b(1)]
       batch_size_checked_at_startup [OF f(2) example_torch_sel(1) n, THEN conjunct2, THEN conjunct1,
         THEN mp, OF b(2)]
  show ?thesis by blast
qed

section \<open>What the loss function is called with\<close>

text \<open>
  Claim C7. For a prediction of shape \<open>[B, T, C]\<close> and a target of shape \<open>[B, T]\<close>:
  in mode \<^verbatim>\<open>RAW\<close> the loss inputs are the prediction with shape \<open>[B, C, T, 1]\<close> and the
  target with shape \<open>[B, T, 1]\<close> and its element type unchanged; in mode \<^verbatim>\<open>MOL\<close> they
  are the prediction unchanged and the target with shape \<open>[B, T, 1]\<close> cast to floating
  point. The loop body calls the loss function with exactly these, right after the forward
  pass.
\<close>

theorem loss_call_shapes:
  fixes st :: "('w, 'o) session"
  assumes "shape y_hat = [B, T, C]" and "shape y = [B, T]"
  shows "loss_inputs ''RAW'' y_hat y =
           Inr (y_hat\<lparr>shape := [B, C, T, 1]\<rparr>, y\<lparr>shape := [B, T, 1]\<rparr>) \<and>
         loss_inputs ''MOL'' y_hat y =
           Inr (y_hat, y\<lparr>shape := [B, T, 1], dtype := Float32\<rparr>) \<and>
         (forward env (params (model st)) (to_device (device (model st)) x)
            (to_device (device (model st)) m) = y_hat \<and>
          mode (model st) = ''RAW'' \<longrightarrow>
            (\<exists>fwd post. new_events st (train_batch env hp ps lf e n ti (i, x, y, m) st) =
               fwd # LossCall lf (y_hat\<lparr>shape := [B, C, T, 1]\<rparr>)
                       (to_device (device (model st)) y\<lparr>shape := [B, T, 1]\<rparr>) # post)) \<and>
         (forward env (params (model st)) (to_device (device (model st)) x)
            (to_device (device (model st)) m) = y_hat \<and>
          mode (model st) = ''MOL'' \<longrightarrow>
            (\<exists>fwd post. new_events st (train_batch env hp ps lf e n ti (i, x, y, m) st) =
               fwd # LossCall lf y_hat
                       (to_device (device (model st)) y\<lparr>shape := [B, T, 1], dtype := Float32\<rparr>) # post))"
proof -
  have raw: "loss_inputs ''RAW'' y_hat z = Inr (y_hat\<lparr>shape := [B, C, T, 1]\<rparr>, z\<lparr>shape := [B, T, 1]\<rparr>)"
    if "shape z = [B, T]" for z
    using assms(1) that
    by (simp add: loss_inputs_def tensor_transpose_def unsqueeze_last_def)
  have mol: "loss_inputs ''MOL'' y_hat z = Inr (y_hat, z\<lparr>shape := [B, T, 1], dtype := Float32\<rparr>)"
    if "shape z = [B, T]" for z
    using that by (simp add: loss_inputs_def unsqueeze_last_def to_float_def)
  have sy: "shape (to_device (device (model st)) y) = [B, T]"
    using assms(2) by (simp add: to_device_def)
  have call: "\<exists>fwd post. new_events st (train_batch env hp ps lf e n ti (i, x, y, m) st) =
               fwd # LossCall lf yh yt # post"
    if "loss_inputs (mode (model st))
             (forward env (params (model st)) (to_device (device (model st)) x)
                (to_device (device (model st)) m))
             (to_device (device (model st)) y) = Inr (yh, yt)" for yh yt
  proof -
    from train_batch_run [OF that, of hp ps lf e n ti i]
    obtain fwd where run: "train_batch env hp ps lf e n ti (i, x, y, m) st =
           checkpoint_and_report hp ps e n i ti
             (advance_step (clip_and_step env hp
                (st\<lparr>model := (model st)\<lparr>params := backward env lf yh yt (params (model st))\<rparr>,
                    trace := trace st @ [fwd, LossCall lf yh yt, ZeroGrad, Backward]\<rparr>)))"
      by blast
    let ?s3 = "st\<lparr>model := (model st)\<lparr>params := backward env lf yh yt (params (model st))\<rparr>,
                    trace := trace st @ [fwd, LossCall lf yh yt, ZeroGrad, Backward]\<rparr>"
    have "\<exists>evs. trace (clip_and_step env hp ?s3) = trace ?s3 @ evs"
      by (simp add: clip_and_step_def Let_def emit_def split: option.split)
    then obtain evs1 where "trace (advance_step (clip_and_step env hp ?s3)) = trace ?s3 @ evs1"
      by (auto simp add: advance_step_def)
    moreover from checkpoint_and_report_frame
      [of hp ps e n i ti "advance_step (clip_and_step env hp ?s3)"]
    obtain evs2 where "trace (final (checkpoint_and_report hp ps e n i ti
         (advance_step (clip_and_step env hp ?s3)))) =
         trace (advance_step (clip_and_step env hp ?s3)) @ evs2"
      by blast
    ultimately have "new_events st (train_batch env hp ps lf e n ti (i, x, y, m) st) =
        fwd # LossCall lf yh yt # (ZeroGrad # Backward # evs1 @ evs2)"
      using run by (simp add: new_events_def)
    then show ?thesis by blast
  qed
  from raw [OF assms(2)] mol [OF assms(2)] call raw [OF sy] mol [OF sy]
  show ?thesis by (metis (no_types, lifting))
qed

theorem loss_call_shapes_witness:
  "loss_inputs ''RAW'' \<lparr>shape = [32, 5, 4], dtype = Float32, dev = CPU\<rparr>
       \<lparr>shape = [32, 5], dtype = Int64, dev = CPU\<rparr> =
     Inr (\<lparr>shape = [32, 4, 5, 1], dtype = Float32, dev = CPU\<rparr>,
          \<lparr>shape = [32, 5, 1], dtype = Int64, dev = CPU\<rparr>) \<and>
   loss_inputs ''MOL'' \<lparr>shape = [32, 5, 4], dtype = Float32, dev = CPU\<rparr>
       \<lparr>shape = [32, 5], dtype = Int64, dev = CPU\<rparr> =
     Inr (\<lparr>shape = [32, 5, 4], dtype = Float32, dev = CPU\<rparr>,
          \<lparr>shape = [32, 5, 1], dtype = Float32, dev = CPU\<rparr>) \<and>
   (\<exists>fwd post. new_events fresh_session
       (train_batch example_torch example_hparams example_paths CrossEntropy 1 3 1
          (1, example_batch) fresh_session) =
       fwd # LossCall CrossEntropy \<lparr>shape = [32, 4, 5, 1], dtype = Float32, dev = CPU\<rparr>
               \<lparr>shape = [32, 5, 1], dtype = Int64, dev = CPU\<rparr> # post) \<and>
   (\<exists>fwd post. new_events (fresh_session\<lparr>model := (model fresh_session)\<lparr>mode := ''MOL''\<rparr>\<rparr>)
       (train_batch example_torch example_hparams example_paths DiscretizedMixLogistic 1 3 1
          (1, example_batch) (fresh_session\<lparr>model := (model fresh_session)\<lparr>mode := ''MOL''\<rparr>\<rparr>)) =
       fwd # LossCall DiscretizedMixLogistic \<lparr>shape = [32, 5, 4], dtype = Float32, dev = CPU\<rparr>
               \<lparr>shape = [32, 5, 1], dtype = Float32, dev = CPU\<rparr> # post)"
proof -
  note w = loss_call_shapes
    [where y_hat = "\<lparr>shape = [32, 5, 4], dtype = Float32, dev = CPU\<rparr>"
       and y = "\<lparr>shape = [32, 5], dtype = Int64, dev = CPU\<rparr>"
       and B = 32 and T = 5 and C = 4 and env = example_torch and hp = example_hparams
       and ps = example_paths and e = 1 and n = 3 and ti = 1 and i = 1
       and x = "\<lparr>shape = [32, 5], dtype = Float32, dev = CPU\<rparr>"
       and m = "\<lparr>shape = [32, 80, 9], dtype = Float32, dev = CPU\<rparr>"]
  from w [where st = fresh_session and lf = CrossEntropy]
  have a: "loss_inputs ''RAW'' \<lparr>shape = [32, 5, 4], dtype = Float32, dev = CPU\<rparr>
       \<lparr>shape = [32, 5], dtype = Int64, dev = CPU\<rparr> =
     Inr (\<lparr>shape = [32, 4, 5, 1], dtype = Float32, dev = CPU\<rparr>,
          \<lparr>shape = [32, 5, 1], dtype = Int64, dev = CPU\<rparr>)"
    and b: "loss_inputs ''MOL'' \<lparr>shape = [32, 5, 4], dtype = Float32, dev = CPU\<rparr>
       \<lparr>shape = [32, 5], dtype = Int64, dev = CPU\<rparr> =
     Inr (\<lparr>shape = [32, 5, 4], dtype = Float32, dev = CPU\<rparr>,
          \<lparr>shape = [32, 5, 1], dtype = Float32, dev = CPU\<rparr>)"
    and c: "\<exists>fwd post. new_events fresh_session
       (train_batch example_torch example_hparams example_paths CrossEntropy 1 3 1
          (1, example_batch) fresh_session) =
       fwd # LossCall CrossEntropy \<lparr>shape = [32, 4, 5, 1], dtype = Float32, dev = CPU\<rparr>
               \<lparr>shape = [32, 5, 1], dtype = Int64, dev = CPU\<rparr> # post"
    by (simp_all add: to_device_def example_batch_def)
  from w [where st = "fresh_session\<lparr>model := (model fresh_session)\<lparr>mode := ''MOL''\<rparr>\<rparr>"
             and lf = DiscretizedMixLogistic]
  have d: "\<exists>fwd post. new_events (fresh_session\<lparr>model := (model fresh_session)\<lparr>mode := ''MOL''\<rparr>\<rparr>)
       (train_batch example_torch example_hparams example_paths DiscretizedMixLogistic 1 3 1
          (1, example_batch) (fresh_session\<lparr>model := (model fresh_session)\<lparr>mode := ''MOL''\<rparr>\<rparr>)) =
       fwd # LossCall DiscretizedMixLogistic \<lparr>shape = [32, 5, 4], dtype = Float32, dev = CPU\<rparr>
               \<lparr>shape = [32, 5, 1], dtype = Float32, dev = CPU\<rparr> # post"
    by (simp add: to_device_def example_batch_def)
  from a b c d show ?thesis by simp
qed

end
